theory Spec2Isabelle
  imports Main "HOL-Library.Word"
begin

section \<open>ethsign: a shallow embedding of \<^verbatim>\<open>ethsign.go\<close>\<close>

text \<open>
  The program is a command-line front end of the go-ethereum accounts library. Its three
  actions (\<^verbatim>\<open>list-accounts\<close>, \<^verbatim>\<open>transaction\<close>, \<^verbatim>\<open>message\<close>) are modelled as functions
  from the command-line context and the world the program runs in to the sequence of
  visible effects of the run together with the value the action returns.
\<close>

subsection \<open>Data of the accounts library\<close>

type_synonym byte = "8 word"
type_synonym bytes = "byte list"

text \<open>\<^verbatim>\<open>accounts.URL\<close>, \<^verbatim>\<open>accounts.Account\<close> and \<^verbatim>\<open>types.Transaction\<close>.\<close>

record url =
  Scheme :: string
  Path :: string

record account =
  Address :: bytes
  AccountURL :: url

record tx =
  AccountNonce :: "64 word"
  Recipient :: "bytes option"
  Amount :: int
  GasLimit :: int
  Price :: int
  Payload :: bytes
  V :: int
  R :: int
  S :: int

definition NewTransaction :: "64 word \<Rightarrow> bytes \<Rightarrow> int \<Rightarrow> int \<Rightarrow> int \<Rightarrow> bytes \<Rightarrow> tx" where
  "NewTransaction nonce to amount gasLimit gasPrice data =
     \<lparr>AccountNonce = nonce, Recipient = Some to, Amount = amount, GasLimit = gasLimit,
      Price = gasPrice, Payload = data, V = 0, R = 0, S = 0\<rparr>"

definition NewContractCreation :: "64 word \<Rightarrow> int \<Rightarrow> int \<Rightarrow> int \<Rightarrow> bytes \<Rightarrow> tx" where
  "NewContractCreation nonce amount gasLimit gasPrice data =
     \<lparr>AccountNonce = nonce, Recipient = None, Amount = amount, GasLimit = gasLimit,
      Price = gasPrice, Payload = data, V = 0, R = 0, S = 0\<rparr>"

text \<open>
  \<^verbatim>\<open>accounts.Wallet\<close> is an interface; a wallet is the record of the methods the program
  calls. \<open>None\<close> stands for a non-nil \<^verbatim>\<open>err\<close>. \<open>Derive\<close> takes the path string that the
  program builds (the program ignores the error of \<^verbatim>\<open>ParseDerivationPath\<close>) and the
  \<^verbatim>\<open>pin\<close> flag.
\<close>

record wallet =
  URL :: url
  Accounts :: "account list"
  Derive :: "string \<Rightarrow> bool \<Rightarrow> account option"
  SignTxWithPassphrase :: "account \<Rightarrow> string \<Rightarrow> tx \<Rightarrow> int \<Rightarrow> tx option"
  SignHashWithPassphrase :: "account \<Rightarrow> string \<Rightarrow> bytes \<Rightarrow> bytes option"

subsection \<open>The world and the command line\<close>

text \<open>
  Everything the program obtains from outside: the wallets behind the three backends, the
  file system, the terminal, and the pure functions of the library that it calls
  (hashing, RLP, parsing of numbers, addresses and hex data). A parser that panics
  (\<^verbatim>\<open>MustParse...\<close>, \<^verbatim>\<open>MustDecode\<close>) returns \<open>None\<close>.
\<close>

record world =
  NewKeyStore :: "string \<Rightarrow> wallet list"
  NewLedgerHub :: "wallet list option"
  NewTrezorHub :: "wallet list option"
  ReadFile :: "string \<Rightarrow> string option"
  ReadPassword :: "string option"
  Keccak256 :: "bytes \<Rightarrow> bytes"
  EncodeToBytes :: "tx \<Rightarrow> bytes"
  HexToAddress :: "string \<Rightarrow> bytes"
  AddressHex :: "bytes \<Rightarrow> string"
  ParseUint64 :: "string \<Rightarrow> 64 word option"
  ParseBig256 :: "string \<Rightarrow> int option"
  Decode :: "string \<Rightarrow> bytes option"

text \<open>\<^verbatim>\<open>cli.Context\<close>: \<^verbatim>\<open>c.String(name)\<close> is the empty string for a flag that is not given.\<close>

record cli_context =
  c_String :: "string \<Rightarrow> string"
  c_Bool :: "string \<Rightarrow> bool"

subsection \<open>Effects and results\<close>

text \<open>
  The visible effects of a run, in the order in which they happen. An action returns
  \<^verbatim>\<open>nil\<close> (\<open>Inr ()\<close>), an exit error with its message and code, or panics.
\<close>

datatype event =
    Stdout string
  | Stderr string
  | WalletOpen url string
  | WalletDerive url string bool
  | FileRead string
  | PasswordRead
  | SignTx url account string tx int
  | SignHash url account string bytes

datatype failure = ExitError string int | Panic

type_synonym 'a io = "event list \<times> (failure + 'a)"

definition return_io :: "'a \<Rightarrow> 'a io" where
  "return_io x = ([], Inr x)"

definition bind_io :: "'a io \<Rightarrow> ('a \<Rightarrow> 'b io) \<Rightarrow> 'b io" where
  "bind_io m f =
     (case m of
        (evs, Inl e) \<Rightarrow> (evs, Inl e)
      | (evs, Inr x) \<Rightarrow> (case f x of (evs', r) \<Rightarrow> (evs @ evs', r)))"

definition emit :: "event \<Rightarrow> unit io" where
  "emit e = ([e], Inr ())"

definition NewExitError :: "string \<Rightarrow> int \<Rightarrow> 'a io" where
  "NewExitError msg code = ([], Inl (ExitError msg code))"

definition must :: "'a option \<Rightarrow> 'a io" where
  "must r = (case r of None \<Rightarrow> ([], Inl Panic) | Some x \<Rightarrow> ([], Inr x))"

definition Println :: "string \<Rightarrow> unit io" where
  "Println s = emit (Stdout (s @ [CHR 0x0A]))"

subsection \<open>Strings, bytes and formatting\<close>

text \<open>
  A Go string is a sequence of bytes: \<^verbatim>\<open>[]byte(s)\<close> and \<^verbatim>\<open>string(b)\<close> convert without
  changing them.
\<close>

definition byte_of_char :: "char \<Rightarrow> byte" where
  "byte_of_char c = of_nat (of_char c)"

definition char_of_byte :: "byte \<Rightarrow> char" where
  "char_of_byte w = char_of (unat w)"

definition to_bytes :: "string \<Rightarrow> bytes" where
  "to_bytes s = map byte_of_char s"

definition to_string :: "bytes \<Rightarrow> string" where
  "to_string b = map char_of_byte b"

text \<open>\<^verbatim>\<open>%d\<close> of \<^verbatim>\<open>fmt.Sprintf\<close> on a number that is not negative.\<close>

fun decimal :: "nat \<Rightarrow> string" where
  "decimal n =
     (if n < 10 then [char_of (48 + n)]
      else decimal (n div 10) @ [char_of (48 + n mod 10)])"

declare decimal.simps [simp del]

definition HasPrefix :: "string \<Rightarrow> string \<Rightarrow> bool" where
  "HasPrefix s p = (take (length p) s = p)"

definition HasSuffix :: "string \<Rightarrow> string \<Rightarrow> bool" where
  "HasSuffix s p = (length p \<le> length s \<and> drop (length s - length p) s = p)"

definition TrimSuffix :: "string \<Rightarrow> string \<Rightarrow> string" where
  "TrimSuffix s p = (if HasSuffix s p then take (length s - length p) s else s)"

text \<open>\<^verbatim>\<open>hexutil.Encode\<close>: the bytes in lower-case hexadecimal after the prefix \<^verbatim>\<open>0x\<close>.\<close>

definition hex_digit :: "nat \<Rightarrow> char" where
  "hex_digit n = ''0123456789abcdef'' ! n"

definition hex_byte :: "byte \<Rightarrow> string" where
  "hex_byte b = [hex_digit (unat b div 16), hex_digit (unat b mod 16)]"

definition Encode :: "bytes \<Rightarrow> string" where
  "Encode b = ''0x'' @ concat (map hex_byte b)"

subsection \<open>\<^verbatim>\<open>signHash\<close>\<close>

text \<open>
  \<^verbatim>\<open>msg := fmt.Sprintf("\x19Ethereum Signed Message:\n%d%s", len(data), data)\<close>,
  \<^verbatim>\<open>return crypto.Keccak256([]byte(msg))\<close>.
\<close>

definition signHash :: "world \<Rightarrow> bytes \<Rightarrow> bytes" where
  "signHash W data =
     (let msg = [CHR 0x19] @ ''Ethereum Signed Message:'' @ [CHR 0x0A]
                 @ decimal (length data) @ to_string data
      in Keccak256 W (to_bytes msg))"

subsection \<open>\<^verbatim>\<open>getWallets\<close>\<close>

text \<open>
  The keystore is always a backend; a hub is one when its constructor returns no error,
  and a notice goes to standard error otherwise. The manager returns the wallets of its
  backends.
\<close>

definition getWallets :: "world \<Rightarrow> string \<Rightarrow> wallet list io" where
  "getWallets W store =
     (let ks = NewKeyStore W store;
          backends = [ks]
      in bind_io (case NewLedgerHub W of
                    None \<Rightarrow> bind_io (emit (Stderr ''ethsign: failed to look for USB Ledgers''))
                              (\<lambda>_. return_io backends)
                  | Some ledgerhub \<Rightarrow> return_io (backends @ [ledgerhub]))
           (\<lambda>backends.
         bind_io (case NewTrezorHub W of
                    None \<Rightarrow> bind_io (emit (Stderr ''ethsign: failed to look for USB Trezors''))
                              (\<lambda>_. return_io backends)
                  | Some trezorhub \<Rightarrow> return_io (backends @ [trezorhub]))
           (\<lambda>backends. return_io (concat backends))))"

subsection \<open>The checks of the command line\<close>

text \<open>The loop over \<^verbatim>\<open>requireds\<close>, the same in \<^verbatim>\<open>transaction\<close> and \<^verbatim>\<open>message\<close>.\<close>

fun check_requireds :: "cli_context \<Rightarrow> string list \<Rightarrow> unit io" where
  "check_requireds c [] = return_io ()"
| "check_requireds c (required # rest) =
     (if c_String c required = ''''
      then NewExitError (''ethsign: missing required parameter --'' @ required) 1
      else check_requireds c rest)"

subsection \<open>The scan for the account\<close>

text \<open>The inner loop over the accounts of a keystore wallet.\<close>

fun scan_accounts :: "bytes \<Rightarrow> account list \<Rightarrow> account option" where
  "scan_accounts from_addr [] = None"
| "scan_accounts from_addr (y # ys) =
     (if Address y = from_addr then Some y else scan_accounts from_addr ys)"

text \<open>
  The inner loop \<^verbatim>\<open>for j := 0; j <= 3; j++\<close> over the derivation paths of a Ledger wallet.
  It returns the account that matches, \<open>None\<close> when the loop ends without one, and the
  exit error when a derivation fails.
\<close>

definition pathstr :: "nat \<Rightarrow> string" where
  "pathstr j = ''m/44'/60'/0'/'' @ decimal j"

function scan_derive :: "wallet \<Rightarrow> bytes \<Rightarrow> nat \<Rightarrow> account option io" where
  "scan_derive x from_addr j =
     (if j \<le> 3 then
        (case Derive x (pathstr j) True of
           None \<Rightarrow>
             ([WalletDerive (URL x) (pathstr j) True],
              Inl (ExitError ''ethsign: Ledger needs to be in Ethereum app with browser support off'' 1))
         | Some y \<Rightarrow>
             if Address y = from_addr
             then ([WalletDerive (URL x) (pathstr j) True], Inr (Some y))
             else (case scan_derive x from_addr (j + 1) of
                     (evs, r) \<Rightarrow> (WalletDerive (URL x) (pathstr j) True # evs, r)))
      else ([], Inr None))"
  by pat_completeness auto
termination
  by (relation "measure (\<lambda>(x, from_addr, j). 4 - j)") auto

declare scan_derive.simps [simp del]

text \<open>
  The loop labelled \<^verbatim>\<open>Scan\<close>, the same in \<^verbatim>\<open>transaction\<close> and \<^verbatim>\<open>message\<close>. The result is
  \<open>None\<close> when \<^verbatim>\<open>acct\<close> is still \<^verbatim>\<open>nil\<close> after the loop, and the values of \<^verbatim>\<open>wallet\<close>,
  \<^verbatim>\<open>*acct\<close> and \<^verbatim>\<open>needPassphrase\<close> otherwise.
\<close>

fun scan :: "wallet list \<Rightarrow> bytes \<Rightarrow> (wallet \<times> account \<times> bool) option io" where
  "scan [] from_addr = ([], Inr None)"
| "scan (x # xs) from_addr =
     (if Scheme (URL x) = ''keystore'' then
        (case scan_accounts from_addr (Accounts x) of
           Some y \<Rightarrow> ([], Inr (Some (x, y, True)))
         | None \<Rightarrow> scan xs from_addr)
      else if Scheme (URL x) = ''ledger'' then
        (case scan_derive x from_addr 0 of
           (evs, Inl e) \<Rightarrow> (WalletOpen (URL x) '''' # evs, Inl e)
         | (evs, Inr (Some y)) \<Rightarrow> (WalletOpen (URL x) '''' # evs, Inr (Some (x, y, False)))
         | (evs, Inr None) \<Rightarrow>
             (case scan xs from_addr of
                (evs', r) \<Rightarrow> (WalletOpen (URL x) '''' # evs @ evs', r)))
      else scan xs from_addr)"

subsection \<open>The passphrase\<close>

text \<open>
  The block after the scan, the same in \<^verbatim>\<open>transaction\<close> and \<^verbatim>\<open>message\<close>: the passphrase
  starts empty; when one is needed it comes from the passphrase file, without one newline
  at its end, or from the terminal.
\<close>

definition get_passphrase :: "world \<Rightarrow> cli_context \<Rightarrow> bool \<Rightarrow> string io" where
  "get_passphrase W c needPassphrase =
     (if needPassphrase then
        (if c_String c ''passphrase-file'' \<noteq> '''' then
           bind_io (emit (FileRead (c_String c ''passphrase-file''))) (\<lambda>_.
             case ReadFile W (c_String c ''passphrase-file'') of
               None \<Rightarrow> NewExitError ''ethsign: failed to read passphrase file'' 1
             | Some passphraseFile \<Rightarrow> return_io (TrimSuffix passphraseFile [CHR 0x0A]))
         else
           bind_io (emit (Stderr ''Ethereum account passphrase (not echoed): '')) (\<lambda>_.
           bind_io (emit PasswordRead) (\<lambda>_.
             case ReadPassword W of
               None \<Rightarrow> NewExitError ''ethsign: failed to read passphrase'' 1
             | Some bytes \<Rightarrow> return_io bytes)))
      else
        bind_io (emit (Stderr (''Waiting for hardware wallet confirmation...'' @ [CHR 0x0A])))
          (\<lambda>_. return_io ''''))"

subsection \<open>The action of \<^verbatim>\<open>transaction\<close>\<close>

definition tx_requireds :: "string list" where
  "tx_requireds = [''nonce'', ''value'', ''gas-price'', ''gas-limit'', ''chain-id'', ''from'']"

text \<open>
  The first part of the action, up to \<^verbatim>\<open>data := hexutil.MustDecode(dataString)\<close>: the
  checks of the flags and the values parsed from them, which are the local variables
  \<^verbatim>\<open>create\<close>, \<^verbatim>\<open>to\<close>, \<^verbatim>\<open>from\<close>, \<^verbatim>\<open>nonce\<close>, \<^verbatim>\<open>gasPrice\<close>, \<^verbatim>\<open>gasLimit\<close>, \<^verbatim>\<open>value\<close>,
  \<^verbatim>\<open>chainID\<close> and \<^verbatim>\<open>data\<close>.
\<close>

record tx_args =
  arg_create :: bool
  arg_to :: bytes
  arg_from :: bytes
  arg_nonce :: "64 word"
  arg_gasPrice :: int
  arg_gasLimit :: int
  arg_value :: int
  arg_chainID :: int
  arg_data :: bytes

definition tx_arguments :: "world \<Rightarrow> cli_context \<Rightarrow> tx_args io" where
  "tx_arguments W c =
     bind_io (check_requireds c tx_requireds) (\<lambda>_.
     let create = c_Bool c ''create'' in
     if (c_String c ''to'' = '''' \<and> \<not> create) \<or> (c_String c ''to'' \<noteq> '''' \<and> create)
     then NewExitError ''ethsign: need exactly one of --to or --create'' 1
     else if create \<and> c_String c ''data'' = ''''
     then NewExitError ''ethsign: need --data when doing --create'' 1
     else
       let to = HexToAddress W (c_String c ''to'');
           from_addr = HexToAddress W (c_String c ''from'')
       in
       bind_io (must (ParseUint64 W (c_String c ''nonce''))) (\<lambda>nonce.
       bind_io (must (ParseBig256 W (c_String c ''gas-price''))) (\<lambda>gasPrice.
       bind_io (must (ParseBig256 W (c_String c ''gas-limit''))) (\<lambda>gasLimit.
       bind_io (must (ParseBig256 W (c_String c ''value''))) (\<lambda>val.
       bind_io (must (ParseBig256 W (c_String c ''chain-id''))) (\<lambda>chainID.
       let dataString = c_String c ''data'';
           dataString = (if dataString = '''' then ''0x'' else dataString)
       in
       bind_io (must (Decode W dataString)) (\<lambda>data.
       return_io \<lparr>arg_create = create, arg_to = to, arg_from = from_addr, arg_nonce = nonce,
                  arg_gasPrice = gasPrice, arg_gasLimit = gasLimit, arg_value = val,
                  arg_chainID = chainID, arg_data = data\<rparr>)))))))"

text \<open>The action: the first part, then the wallets, the scan, the passphrase and the signing.\<close>

definition transaction :: "world \<Rightarrow> cli_context \<Rightarrow> unit io" where
  "transaction W c =
     bind_io (tx_arguments W c) (\<lambda>a.
     bind_io (getWallets W (c_String c ''key-store'')) (\<lambda>wallets.
     bind_io (scan wallets (arg_from a)) (\<lambda>found.
     case found of
       None \<Rightarrow> NewExitError ''ethsign: account not found'' 1
     | Some (wallet, acct, needPassphrase) \<Rightarrow>
         bind_io (get_passphrase W c needPassphrase) (\<lambda>passphrase.
         let t = (if arg_create a
                  then NewContractCreation (arg_nonce a) (arg_value a) (arg_gasLimit a)
                         (arg_gasPrice a) (arg_data a)
                  else NewTransaction (arg_nonce a) (arg_to a) (arg_value a) (arg_gasLimit a)
                         (arg_gasPrice a) (arg_data a))
         in
         bind_io (emit (SignTx (URL wallet) acct passphrase t (arg_chainID a))) (\<lambda>_.
         case SignTxWithPassphrase wallet acct passphrase t (arg_chainID a) of
           None \<Rightarrow> NewExitError ''ethsign: failed to sign tx'' 1
         | Some signedTx \<Rightarrow> Println (Encode (EncodeToBytes W signedTx)))))))"

subsection \<open>The action of \<^verbatim>\<open>message\<close>\<close>

definition msg_requireds :: "string list" where
  "msg_requireds = [''from'', ''data'']"

text \<open>
  The first part of the action, up to \<^verbatim>\<open>data := hexutil.MustDecode(dataString)\<close>: it
  returns \<^verbatim>\<open>from\<close> and \<^verbatim>\<open>data\<close>.
\<close>

definition msg_arguments :: "world \<Rightarrow> cli_context \<Rightarrow> (bytes \<times> bytes) io" where
  "msg_arguments W c =
     bind_io (check_requireds c msg_requireds) (\<lambda>_.
     let from_addr = HexToAddress W (c_String c ''from'');
         dataString = c_String c ''data'';
         dataString = (if \<not> HasPrefix dataString ''0x'' then ''0x'' @ dataString else dataString)
     in
     bind_io (must (Decode W dataString)) (\<lambda>data. return_io (from_addr, data)))"

text \<open>
  \<^verbatim>\<open>signature[64] += 27\<close> panics on a signature of fewer than 65 bytes, and adds modulo
  \<open>2 ^ 8\<close> otherwise.
\<close>

definition message :: "world \<Rightarrow> cli_context \<Rightarrow> unit io" where
  "message W c =
     bind_io (msg_arguments W c) (\<lambda>(from_addr, data).
     bind_io (getWallets W (c_String c ''key-store'')) (\<lambda>wallets.
     bind_io (scan wallets from_addr) (\<lambda>found.
     case found of
       None \<Rightarrow> NewExitError ''ethsign: account not found'' 1
     | Some (wallet, acct, needPassphrase) \<Rightarrow>
         bind_io (get_passphrase W c needPassphrase) (\<lambda>passphrase.
         bind_io (emit (SignHash (URL wallet) acct passphrase (signHash W data))) (\<lambda>_.
         case SignHashWithPassphrase wallet acct passphrase (signHash W data) of
           None \<Rightarrow> NewExitError ''ethsign: failed to sign tx'' 1
         | Some signature \<Rightarrow>
             if length signature \<le> 64 then ([], Inl Panic)
             else Println (Encode (signature[64 := signature ! 64 + 27])))))))"

subsection \<open>The action of \<^verbatim>\<open>list-accounts\<close>\<close>

text \<open>The loop over the derivation paths of a Ledger wallet, here with \<^verbatim>\<open>pin\<close> false.\<close>

function list_derive :: "world \<Rightarrow> wallet \<Rightarrow> nat \<Rightarrow> unit io" where
  "list_derive W x j =
     (if j \<le> 3 then
        (case Derive x (pathstr j) False of
           None \<Rightarrow>
             ([WalletDerive (URL x) (pathstr j) False],
              Inl (ExitError ''ethsign: couldn't use Ledger: needs to be in Ethereum app with browser support off'' 1))
         | Some z \<Rightarrow>
             (case list_derive W x (j + 1) of
                (evs, r) \<Rightarrow>
                  (WalletDerive (URL x) (pathstr j) False
                   # Stdout (AddressHex W (Address z) @ '' ledger-'' @ pathstr j @ [CHR 0x0A])
                   # evs, r)))
      else ([], Inr ()))"
  by pat_completeness auto
termination
  by (relation "measure (\<lambda>(W, x, j). 4 - j)") auto

declare list_derive.simps [simp del]

fun list_wallets :: "world \<Rightarrow> wallet list \<Rightarrow> unit io" where
  "list_wallets W [] = ([], Inr ())"
| "list_wallets W (x # xs) =
     (if Scheme (URL x) = ''keystore'' then
        (case list_wallets W xs of
           (evs, r) \<Rightarrow>
             (map (\<lambda>y. Stdout (AddressHex W (Address y) @ '' keystore'' @ [CHR 0x0A])) (Accounts x)
              @ evs, r))
      else if Scheme (URL x) = ''ledger'' then
        (case list_derive W x 0 of
           (evs, Inl e) \<Rightarrow> (WalletOpen (URL x) '''' # evs, Inl e)
         | (evs, Inr u) \<Rightarrow>
             (case list_wallets W xs of
                (evs', r) \<Rightarrow> (WalletOpen (URL x) '''' # evs @ evs', r)))
      else list_wallets W xs)"

definition list_accounts :: "world \<Rightarrow> cli_context \<Rightarrow> unit io" where
  "list_accounts W c =
     bind_io (getWallets W (c_String c ''key-store'')) (\<lambda>wallets. list_wallets W wallets)"

subsection \<open>Reading a run\<close>

text \<open>
  What a run wrote to standard output, the paths it asked wallets to derive, and the
  events that call a signer or read a passphrase.
\<close>

fun stdout_text :: "event \<Rightarrow> string" where
  "stdout_text (Stdout s) = s"
| "stdout_text e = []"

definition stdout :: "event list \<Rightarrow> string" where
  "stdout evs = concat (map stdout_text evs)"

fun derived :: "event list \<Rightarrow> string list" where
  "derived [] = []"
| "derived (WalletDerive u p pin # evs) = p # derived evs"
| "derived (e # evs) = derived evs"

fun is_sign :: "event \<Rightarrow> bool" where
  "is_sign (SignTx u a p t k) = True"
| "is_sign (SignHash u a p h) = True"
| "is_sign e = False"

fun is_passphrase_read :: "event \<Rightarrow> bool" where
  "is_passphrase_read (FileRead f) = True"
| "is_passphrase_read PasswordRead = True"
| "is_passphrase_read e = False"

text \<open>A flag given on the command line.\<close>

definition with_flag :: "cli_context \<Rightarrow> string \<Rightarrow> string \<Rightarrow> cli_context" where
  "with_flag c name v = c\<lparr>c_String := (c_String c)(name := v)\<rparr>"

subsection \<open>Example worlds\<close>

text \<open>
  Small worlds on which the actions are run in the examples below. The functions of the
  library are stand-ins that are defined on the few inputs of the examples: the hash is
  constant and the RLP encoding returns the payload.
\<close>

definition addr_a :: bytes where "addr_a = replicate 20 0xAA"
definition addr_b :: bytes where "addr_b = replicate 20 0xBB"
definition addr_c :: bytes where "addr_c = replicate 20 0xCC"

definition ks_url :: url where "ks_url = \<lparr>Scheme = ''keystore'', Path = ''/keys/a''\<rparr>"
definition ledger_url :: url where "ledger_url = \<lparr>Scheme = ''ledger'', Path = ''0001:0002:00''\<rparr>"
definition trezor_url :: url where "trezor_url = \<lparr>Scheme = ''trezor'', Path = ''0001:0003:00''\<rparr>"

definition acct_a :: account where "acct_a = \<lparr>Address = addr_a, AccountURL = ks_url\<rparr>"
definition acct_b :: account where "acct_b = \<lparr>Address = addr_b, AccountURL = ledger_url\<rparr>"
definition acct_c :: account where "acct_c = \<lparr>Address = addr_c, AccountURL = trezor_url\<rparr>"

definition sig65 :: bytes where "sig65 = replicate 64 0x11 @ [1]"

text \<open>A keystore wallet that signs with the passphrase \<^verbatim>\<open>secret\<close>.\<close>

definition ks_wallet :: wallet where
  "ks_wallet =
     \<lparr>URL = ks_url, Accounts = [acct_a], Derive = (\<lambda>p pin. None),
      SignTxWithPassphrase = (\<lambda>a p t k. if p = ''secret'' then Some (t\<lparr>V := 37, R := 1, S := 1\<rparr>) else None),
      SignHashWithPassphrase = (\<lambda>a p h. if p = ''secret'' then Some sig65 else None)\<rparr>"

text \<open>A Ledger whose first path derives \<open>acct_b\<close>, and one that is not in its Ethereum app.\<close>

definition ledger_wallet :: wallet where
  "ledger_wallet =
     \<lparr>URL = ledger_url, Accounts = [],
      Derive = (\<lambda>p pin. if p = ''m/44'/60'/0'/0'' then Some acct_b else Some acct_a),
      SignTxWithPassphrase = (\<lambda>a p t k. Some (t\<lparr>V := 38, R := 2, S := 2\<rparr>)),
      SignHashWithPassphrase = (\<lambda>a p h. Some sig65)\<rparr>"

definition locked_ledger :: wallet where
  "locked_ledger = ledger_wallet\<lparr>Derive := (\<lambda>p pin. None)\<rparr>"

text \<open>A Trezor that holds \<open>acct_c\<close>.\<close>

definition trezor_wallet :: wallet where
  "trezor_wallet =
     \<lparr>URL = trezor_url, Accounts = [acct_c], Derive = (\<lambda>p pin. Some acct_c),
      SignTxWithPassphrase = (\<lambda>a p t k. Some (t\<lparr>V := 38, R := 3, S := 3\<rparr>)),
      SignHashWithPassphrase = (\<lambda>a p h. Some sig65)\<rparr>"

definition demo_world :: world where
  "demo_world =
     \<lparr>NewKeyStore = (\<lambda>store. [ks_wallet]),
      NewLedgerHub = Some [ledger_wallet],
      NewTrezorHub = Some [trezor_wallet],
      ReadFile = (\<lambda>f. if f = ''/pw'' then Some (''secret'' @ [CHR 0x0A]) else None),
      ReadPassword = Some ''secret'',
      Keccak256 = (\<lambda>b. replicate 32 0),
      EncodeToBytes = (\<lambda>t. Payload t),
      HexToAddress = (\<lambda>s. if s = ''0xaa'' then addr_a else if s = ''0xbb'' then addr_b
                          else if s = ''0xcc'' then addr_c else replicate 20 0),
      AddressHex = (\<lambda>b. if b = addr_a then ''0xaa'' else if b = addr_b then ''0xbb'' else ''0xcc''),
      ParseUint64 = (\<lambda>s. if s = ''7'' then Some 7 else None),
      ParseBig256 = (\<lambda>s. if s = ''1'' then Some 1 else None),
      Decode = (\<lambda>s. if s = ''0x'' then Some [] else if s = ''0x01ff'' then Some [1, 255] else None)\<rparr>"

text \<open>The same world with the Ledger out of its Ethereum app.\<close>

definition locked_world :: world where
  "locked_world = demo_world\<lparr>NewLedgerHub := Some [locked_ledger]\<rparr>"

text \<open>Command lines: the flags that are given, and whether \<^verbatim>\<open>--create\<close> is.\<close>

definition flags :: "(string \<times> string) list \<Rightarrow> bool \<Rightarrow> cli_context" where
  "flags fs create =
     \<lparr>c_String = (\<lambda>n. case map_of fs n of None \<Rightarrow> '''' | Some v \<Rightarrow> v),
      c_Bool = (\<lambda>n. n = ''create'' \<and> create)\<rparr>"

definition tx_flags :: "string \<Rightarrow> cli_context" where
  "tx_flags sender =
     flags [(''nonce'', ''7''), (''value'', ''1''), (''gas-price'', ''1''), (''gas-limit'', ''1''),
            (''chain-id'', ''1''), (''from'', sender), (''to'', ''0xbb''), (''data'', ''0x01ff'')] False"

definition msg_flags :: "string \<Rightarrow> cli_context" where
  "msg_flags sender = flags [(''from'', sender), (''data'', ''01ff'')] False"

section \<open>Properties\<close>

subsection \<open>Sequencing\<close>

lemma bind_io_Inr: "bind_io (evs, Inr x) f = (evs @ fst (f x), snd (f x))"
  by (simp add: bind_io_def split: prod.splits)

lemma bind_io_Inl: "bind_io (evs, Inl e) f = (evs, Inl e)"
  by (simp add: bind_io_def)

lemma bind_io_cases:
  assumes "bind_io m f = (evs, r)"
  obtains (stop) e where "m = (evs, Inl e)" "r = Inl e"
        | (go) evs1 x evs2 where "m = (evs1, Inr x)" "f x = (evs2, r)" "evs = evs1 @ evs2"
  using assms by (cases m) (auto simp: bind_io_def split: sum.splits prod.splits)

lemma in_events_bind_io:
  "e \<in> set (fst (bind_io m f)) \<longleftrightarrow>
     e \<in> set (fst m) \<or> (\<exists>x. snd m = Inr x \<and> e \<in> set (fst (f x)))"
  by (cases m) (auto simp: bind_io_def split: sum.splits prod.splits)

subsection \<open>The checks and the parsers\<close>

lemma check_requireds_find:
  "check_requireds c rs =
     (case find (\<lambda>n. c_String c n = '''') rs of
        None \<Rightarrow> ([], Inr ())
      | Some n \<Rightarrow> ([], Inl (ExitError (''ethsign: missing required parameter --'' @ n) 1)))"
  by (induction rs) (simp_all add: return_io_def NewExitError_def)

lemma check_requireds_missing:
  assumes "\<exists>n\<in>set rs. c_String c n = ''''"
  shows "\<exists>n\<in>set rs. c_String c n = '''' \<and>
           check_requireds c rs =
             ([], Inl (ExitError (''ethsign: missing required parameter --'' @ n) 1))"
proof (cases "find (\<lambda>n. c_String c n = '''') rs")
  case None
  with assms show ?thesis by (auto simp: find_None_iff)
next
  case (Some n)
  then have "n \<in> set rs" "c_String c n = ''''"
    by (auto simp: find_Some_iff)
  with Some show ?thesis by (auto simp: check_requireds_find)
qed

lemma check_requireds_ok:
  "(\<forall>n\<in>set rs. c_String c n \<noteq> '''') \<Longrightarrow> check_requireds c rs = ([], Inr ())"
  by (induction rs) (simp_all add: return_io_def)

lemma events_check_requireds: "fst (check_requireds c rs) = []"
  by (simp add: check_requireds_find split: option.splits)

lemma must_Some: "must (Some x) = ([], Inr x)"
  by (simp add: must_def)

lemma must_None: "must None = ([], Inl Panic)"
  by (simp add: must_def)

lemma events_must: "fst (must r) = []"
  by (simp add: must_def split: option.splits)

lemma snd_must: "snd (must r) = Inr x \<longleftrightarrow> r = Some x"
  by (simp add: must_def split: option.splits)

lemma tx_arguments_Inr:
  assumes "tx_arguments W c = (ea, Inr a)"
  shows "ea = []"
    and "\<forall>n\<in>set tx_requireds. c_String c n \<noteq> ''''"
    and "(c_String c ''to'' \<noteq> '''') \<noteq> c_Bool c ''create''"
    and "c_Bool c ''create'' \<longrightarrow> c_String c ''data'' \<noteq> ''''"
    and "arg_create a = c_Bool c ''create''"
    and "arg_to a = HexToAddress W (c_String c ''to'')"
    and "arg_from a = HexToAddress W (c_String c ''from'')"
    and "ParseUint64 W (c_String c ''nonce'') = Some (arg_nonce a)"
    and "ParseBig256 W (c_String c ''gas-price'') = Some (arg_gasPrice a)"
    and "ParseBig256 W (c_String c ''gas-limit'') = Some (arg_gasLimit a)"
    and "ParseBig256 W (c_String c ''value'') = Some (arg_value a)"
    and "ParseBig256 W (c_String c ''chain-id'') = Some (arg_chainID a)"
    and "Decode W (if c_String c ''data'' = '''' then ''0x'' else c_String c ''data'')
           = Some (arg_data a)"
  using assms unfolding tx_arguments_def Let_def
  by (auto simp: check_requireds_find bind_io_def must_def return_io_def NewExitError_def
           find_None_iff
      split: option.splits if_splits)

lemma events_tx_arguments: "fst (tx_arguments W c) = []"
  unfolding tx_arguments_def Let_def
  by (auto simp: check_requireds_find bind_io_def must_def return_io_def NewExitError_def
      split: option.splits if_splits)

lemma msg_arguments_Inr:
  assumes "msg_arguments W c = (ea, Inr (f, d))"
  shows "ea = []"
    and "\<forall>n\<in>set msg_requireds. c_String c n \<noteq> ''''"
    and "f = HexToAddress W (c_String c ''from'')"
    and "Decode W (if HasPrefix (c_String c ''data'') ''0x'' then c_String c ''data''
                   else ''0x'' @ c_String c ''data'') = Some d"
  using assms unfolding msg_arguments_def Let_def
  by (auto simp: check_requireds_find bind_io_def must_def return_io_def NewExitError_def
           find_None_iff
      split: option.splits if_splits)

lemma events_msg_arguments: "fst (msg_arguments W c) = []"
  unfolding msg_arguments_def Let_def
  by (auto simp: check_requireds_find bind_io_def must_def return_io_def NewExitError_def
      split: option.splits if_splits)

subsection \<open>Bytes and strings\<close>

lemma byte_of_char_of_byte: "byte_of_char (char_of_byte w) = w"
proof -
  have "unat w < 2 ^ 8" using unsigned_less [of w, where ?'a = nat] by simp
  then have "unat w mod 256 = unat w" by simp
  then show ?thesis by (simp add: byte_of_char_def char_of_byte_def)
qed

lemma to_bytes_to_string: "to_bytes (to_string b) = b"
  by (induction b) (simp_all add: to_bytes_def to_string_def byte_of_char_of_byte)

lemma to_bytes_append: "to_bytes (s @ t) = to_bytes s @ to_bytes t"
  by (simp add: to_bytes_def)

lemma signHash_eq:
  "signHash W d =
     Keccak256 W (to_bytes ([CHR 0x19] @ ''Ethereum Signed Message:'' @ [CHR 0x0A])
                  @ to_bytes (decimal (length d)) @ d)"
  unfolding signHash_def Let_def
  by (simp only: to_bytes_append to_bytes_to_string append_assoc)

subsection \<open>The wallets\<close>

lemma getWallets_eq:
  "getWallets W store =
     ((case NewLedgerHub W of None \<Rightarrow> [Stderr ''ethsign: failed to look for USB Ledgers'']
                            | Some l \<Rightarrow> [])
      @ (case NewTrezorHub W of None \<Rightarrow> [Stderr ''ethsign: failed to look for USB Trezors'']
                              | Some t \<Rightarrow> []),
      Inr (NewKeyStore W store
           @ (case NewLedgerHub W of None \<Rightarrow> [] | Some l \<Rightarrow> l)
           @ (case NewTrezorHub W of None \<Rightarrow> [] | Some t \<Rightarrow> t)))"
  by (simp add: getWallets_def Let_def bind_io_def return_io_def emit_def split: option.splits)

lemma events_getWallets:
  "getWallets W store = (evs, r) \<Longrightarrow> e \<in> set evs \<Longrightarrow> \<exists>s. e = Stderr s"
  by (auto simp: getWallets_eq split: option.splits)

subsection \<open>The events of the scan\<close>

lemma events_scan_derive_fst:
  "e \<in> set (fst (scan_derive x f j)) \<Longrightarrow> \<exists>i\<le>3. e = WalletDerive (URL x) (pathstr i) True"
proof (induction x f j rule: scan_derive.induct)
  case (1 x f j)
  then show ?case
    by (subst (asm) (2) scan_derive.simps) (auto split: if_splits option.splits prod.splits)
qed

lemma events_scan_derive:
  "scan_derive x f j = (evs, r) \<Longrightarrow> e \<in> set evs \<Longrightarrow>
     \<exists>i\<le>3. e = WalletDerive (URL x) (pathstr i) True"
  using events_scan_derive_fst [of e x f j] by simp

lemma events_scan_fst:
  "e \<in> set (fst (scan ws f)) \<Longrightarrow>
     (\<exists>u s. e = WalletOpen u s) \<or> (\<exists>u. \<exists>i\<le>3. e = WalletDerive u (pathstr i) True)"
proof (induction ws f rule: scan.induct)
  case (1 f)
  then show ?case by simp
next
  case (2 x xs f)
  then show ?case
    by (auto split: if_splits option.splits prod.splits sum.splits)
       (blast dest: events_scan_derive)+
qed

lemma events_scan:
  "scan ws f = (evs, r) \<Longrightarrow> e \<in> set evs \<Longrightarrow>
     (\<exists>u s. e = WalletOpen u s) \<or> (\<exists>u. \<exists>i\<le>3. e = WalletDerive u (pathstr i) True)"
  using events_scan_fst [of e ws f] by simp

subsection \<open>The passphrase\<close>

lemma get_passphrase_hardware:
  "get_passphrase W c False =
     ([Stderr (''Waiting for hardware wallet confirmation...'' @ [CHR 0x0A])], Inr '''')"
  by (simp add: get_passphrase_def bind_io_def emit_def return_io_def)

lemma get_passphrase_file:
  "c_String c ''passphrase-file'' \<noteq> '''' \<Longrightarrow>
   get_passphrase W c True =
     ([FileRead (c_String c ''passphrase-file'')],
      case ReadFile W (c_String c ''passphrase-file'') of
        None \<Rightarrow> Inl (ExitError ''ethsign: failed to read passphrase file'' 1)
      | Some passphraseFile \<Rightarrow> Inr (TrimSuffix passphraseFile [CHR 0x0A]))"
  by (simp add: get_passphrase_def bind_io_def emit_def return_io_def NewExitError_def
           split: option.splits)

lemma get_passphrase_terminal:
  "c_String c ''passphrase-file'' = '''' \<Longrightarrow>
   get_passphrase W c True =
     ([Stderr ''Ethereum account passphrase (not echoed): '', PasswordRead],
      case ReadPassword W of
        None \<Rightarrow> Inl (ExitError ''ethsign: failed to read passphrase'' 1)
      | Some bytes \<Rightarrow> Inr bytes)"
  by (simp add: get_passphrase_def bind_io_def emit_def return_io_def NewExitError_def
           split: option.splits)

lemma events_get_passphrase:
  "get_passphrase W c np = (evs, r) \<Longrightarrow> e \<in> set evs \<Longrightarrow>
     (\<exists>s. e = Stderr s) \<or> (\<exists>s. e = FileRead s) \<or> e = PasswordRead"
  by (cases np; cases "c_String c ''passphrase-file'' = ''''")
     (auto simp: get_passphrase_hardware get_passphrase_file get_passphrase_terminal)

subsection \<open>The runs of the two actions\<close>

lemma transaction_scan_failed:
  assumes "tx_arguments W c = (ea, Inr a)"
    and "getWallets W (c_String c ''key-store'') = (hevs, Inr ws)"
    and "scan ws (arg_from a) = (sevs, Inl e)"
  shows "transaction W c = (hevs @ sevs, Inl e)"
  using assms tx_arguments_Inr(1) [OF assms(1)]
  by (simp add: transaction_def bind_io_Inr bind_io_Inl)

lemma transaction_not_found:
  assumes "tx_arguments W c = (ea, Inr a)"
    and "getWallets W (c_String c ''key-store'') = (hevs, Inr ws)"
    and "scan ws (arg_from a) = (sevs, Inr None)"
  shows "transaction W c = (hevs @ sevs, Inl (ExitError ''ethsign: account not found'' 1))"
  using assms tx_arguments_Inr(1) [OF assms(1)]
  by (simp add: transaction_def bind_io_Inr bind_io_Inl NewExitError_def)

lemma transaction_no_passphrase:
  assumes "tx_arguments W c = (ea, Inr a)"
    and "getWallets W (c_String c ''key-store'') = (hevs, Inr ws)"
    and "scan ws (arg_from a) = (sevs, Inr (Some (wallet, acct, np)))"
    and "get_passphrase W c np = (pevs, Inl e)"
  shows "transaction W c = (hevs @ sevs @ pevs, Inl e)"
  using assms tx_arguments_Inr(1) [OF assms(1)]
  by (simp add: transaction_def bind_io_Inr bind_io_Inl)

lemma transaction_signs:
  assumes "tx_arguments W c = (ea, Inr a)"
    and "getWallets W (c_String c ''key-store'') = (hevs, Inr ws)"
    and "scan ws (arg_from a) = (sevs, Inr (Some (wallet, acct, np)))"
    and "get_passphrase W c np = (pevs, Inr p)"
    and "t = (if arg_create a
              then NewContractCreation (arg_nonce a) (arg_value a) (arg_gasLimit a)
                     (arg_gasPrice a) (arg_data a)
              else NewTransaction (arg_nonce a) (arg_to a) (arg_value a) (arg_gasLimit a)
                     (arg_gasPrice a) (arg_data a))"
  shows "transaction W c =
           (hevs @ sevs @ pevs @ SignTx (URL wallet) acct p t (arg_chainID a)
              # (case SignTxWithPassphrase wallet acct p t (arg_chainID a) of
                   None \<Rightarrow> []
                 | Some signedTx \<Rightarrow> [Stdout (Encode (EncodeToBytes W signedTx) @ [CHR 0x0A])]),
            case SignTxWithPassphrase wallet acct p t (arg_chainID a) of
              None \<Rightarrow> Inl (ExitError ''ethsign: failed to sign tx'' 1)
            | Some signedTx \<Rightarrow> Inr ())"
  using assms tx_arguments_Inr(1) [OF assms(1)]
  by (simp add: transaction_def bind_io_Inr bind_io_Inl Let_def emit_def NewExitError_def
        Println_def split: option.splits)

lemma message_scan_failed:
  assumes "msg_arguments W c = (ea, Inr (f, d))"
    and "getWallets W (c_String c ''key-store'') = (hevs, Inr ws)"
    and "scan ws f = (sevs, Inl e)"
  shows "message W c = (hevs @ sevs, Inl e)"
  using assms msg_arguments_Inr(1) [OF assms(1)]
  by (simp add: message_def bind_io_Inr bind_io_Inl)

lemma message_not_found:
  assumes "msg_arguments W c = (ea, Inr (f, d))"
    and "getWallets W (c_String c ''key-store'') = (hevs, Inr ws)"
    and "scan ws f = (sevs, Inr None)"
  shows "message W c = (hevs @ sevs, Inl (ExitError ''ethsign: account not found'' 1))"
  using assms msg_arguments_Inr(1) [OF assms(1)]
  by (simp add: message_def bind_io_Inr bind_io_Inl NewExitError_def)

lemma message_no_passphrase:
  assumes "msg_arguments W c = (ea, Inr (f, d))"
    and "getWallets W (c_String c ''key-store'') = (hevs, Inr ws)"
    and "scan ws f = (sevs, Inr (Some (wallet, acct, np)))"
    and "get_passphrase W c np = (pevs, Inl e)"
  shows "message W c = (hevs @ sevs @ pevs, Inl e)"
  using assms msg_arguments_Inr(1) [OF assms(1)]
  by (simp add: message_def bind_io_Inr bind_io_Inl)

lemma message_signs:
  assumes "msg_arguments W c = (ea, Inr (f, d))"
    and "getWallets W (c_String c ''key-store'') = (hevs, Inr ws)"
    and "scan ws f = (sevs, Inr (Some (wallet, acct, np)))"
    and "get_passphrase W c np = (pevs, Inr p)"
  shows "message W c =
           (hevs @ sevs @ pevs @ SignHash (URL wallet) acct p (signHash W d)
              # (case SignHashWithPassphrase wallet acct p (signHash W d) of
                   None \<Rightarrow> []
                 | Some sig \<Rightarrow>
                     if length sig \<le> 64 then []
                     else [Stdout (Encode (sig[64 := sig ! 64 + 27]) @ [CHR 0x0A])]),
            case SignHashWithPassphrase wallet acct p (signHash W d) of
              None \<Rightarrow> Inl (ExitError ''ethsign: failed to sign tx'' 1)
            | Some sig \<Rightarrow> if length sig \<le> 64 then Inl Panic else Inr ())"
  using assms msg_arguments_Inr(1) [OF assms(1)]
  by (simp add: message_def bind_io_Inr bind_io_Inl Let_def emit_def NewExitError_def
        Println_def split: option.splits)

text \<open>Every run of an action is of one of five kinds.\<close>

lemma transaction_cases:
  obtains
    (arguments) e where "tx_arguments W c = ([], Inl e)" "transaction W c = ([], Inl e)"
  | (scan_failed) a hevs ws sevs e where
      "tx_arguments W c = ([], Inr a)"
      "getWallets W (c_String c ''key-store'') = (hevs, Inr ws)"
      "scan ws (arg_from a) = (sevs, Inl e)"
      "transaction W c = (hevs @ sevs, Inl e)"
  | (not_found) a hevs ws sevs where
      "tx_arguments W c = ([], Inr a)"
      "getWallets W (c_String c ''key-store'') = (hevs, Inr ws)"
      "scan ws (arg_from a) = (sevs, Inr None)"
      "transaction W c = (hevs @ sevs, Inl (ExitError ''ethsign: account not found'' 1))"
  | (no_passphrase) a hevs ws sevs wallet acct np pevs e where
      "tx_arguments W c = ([], Inr a)"
      "getWallets W (c_String c ''key-store'') = (hevs, Inr ws)"
      "scan ws (arg_from a) = (sevs, Inr (Some (wallet, acct, np)))"
      "get_passphrase W c np = (pevs, Inl e)"
      "transaction W c = (hevs @ sevs @ pevs, Inl e)"
  | (signs) a hevs ws sevs wallet acct np pevs p t where
      "tx_arguments W c = ([], Inr a)"
      "getWallets W (c_String c ''key-store'') = (hevs, Inr ws)"
      "scan ws (arg_from a) = (sevs, Inr (Some (wallet, acct, np)))"
      "get_passphrase W c np = (pevs, Inr p)"
      "t = (if arg_create a
            then NewContractCreation (arg_nonce a) (arg_value a) (arg_gasLimit a)
                   (arg_gasPrice a) (arg_data a)
            else NewTransaction (arg_nonce a) (arg_to a) (arg_value a) (arg_gasLimit a)
                   (arg_gasPrice a) (arg_data a))"
      "transaction W c =
           (hevs @ sevs @ pevs @ SignTx (URL wallet) acct p t (arg_chainID a)
              # (case SignTxWithPassphrase wallet acct p t (arg_chainID a) of
                   None \<Rightarrow> []
                 | Some signedTx \<Rightarrow> [Stdout (Encode (EncodeToBytes W signedTx) @ [CHR 0x0A])]),
            case SignTxWithPassphrase wallet acct p t (arg_chainID a) of
              None \<Rightarrow> Inl (ExitError ''ethsign: failed to sign tx'' 1)
            | Some signedTx \<Rightarrow> Inr ())"
proof -
  obtain ea r where m: "tx_arguments W c = (ea, r)" by (cases "tx_arguments W c")
  have ea: "ea = []" using events_tx_arguments [of W c] m by simp
  show ?thesis
  proof (cases r)
    case (Inl e)
    with m ea have "tx_arguments W c = ([], Inl e)" by simp
    moreover from this have "transaction W c = ([], Inl e)"
      by (simp add: transaction_def bind_io_Inl)
    ultimately show ?thesis by (rule arguments)
  next
    case (Inr a)
    note A = m [unfolded Inr ea]
    obtain hevs ws where G: "getWallets W (c_String c ''key-store'') = (hevs, Inr ws)"
      by (simp add: getWallets_eq)
    obtain sevs sr where S: "scan ws (arg_from a) = (sevs, sr)"
      by (cases "scan ws (arg_from a)")
    show ?thesis
    proof (cases sr)
      case (Inl e)
      note S' = S [unfolded Inl]
      show ?thesis by (rule scan_failed [OF A G S' transaction_scan_failed [OF A G S']])
    next
      case (Inr found)
      show ?thesis
      proof (cases found)
        case None
        note S' = S [unfolded Inr None]
        show ?thesis by (rule not_found [OF A G S' transaction_not_found [OF A G S']])
      next
        case (Some wan)
        obtain wallet acct np where wan: "wan = (wallet, acct, np)" by (cases wan)
        note S' = S [unfolded Inr Some wan]
        obtain pevs pr where P: "get_passphrase W c np = (pevs, pr)"
          by (cases "get_passphrase W c np")
        show ?thesis
        proof (cases pr)
          case (Inl e)
          note P' = P [unfolded Inl]
          show ?thesis
            by (rule no_passphrase [OF A G S' P' transaction_no_passphrase [OF A G S' P']])
        next
          case (Inr pw)
          note P' = P [unfolded Inr]
          show ?thesis
            by (rule signs [OF A G S' P' refl transaction_signs [OF A G S' P' refl]])
        qed
      qed
    qed
  qed
qed

lemma message_cases:
  obtains
    (arguments) e where "msg_arguments W c = ([], Inl e)" "message W c = ([], Inl e)"
  | (scan_failed) f d hevs ws sevs e where
      "msg_arguments W c = ([], Inr (f, d))"
      "getWallets W (c_String c ''key-store'') = (hevs, Inr ws)"
      "scan ws f = (sevs, Inl e)"
      "message W c = (hevs @ sevs, Inl e)"
  | (not_found) f d hevs ws sevs where
      "msg_arguments W c = ([], Inr (f, d))"
      "getWallets W (c_String c ''key-store'') = (hevs, Inr ws)"
      "scan ws f = (sevs, Inr None)"
      "message W c = (hevs @ sevs, Inl (ExitError ''ethsign: account not found'' 1))"
  | (no_passphrase) f d hevs ws sevs wallet acct np pevs e where
      "msg_arguments W c = ([], Inr (f, d))"
      "getWallets W (c_String c ''key-store'') = (hevs, Inr ws)"
      "scan ws f = (sevs, Inr (Some (wallet, acct, np)))"
      "get_passphrase W c np = (pevs, Inl e)"
      "message W c = (hevs @ sevs @ pevs, Inl e)"
  | (signs) f d hevs ws sevs wallet acct np pevs p where
      "msg_arguments W c = ([], Inr (f, d))"
      "getWallets W (c_String c ''key-store'') = (hevs, Inr ws)"
      "scan ws f = (sevs, Inr (Some (wallet, acct, np)))"
      "get_passphrase W c np = (pevs, Inr p)"
      "message W c =
           (hevs @ sevs @ pevs @ SignHash (URL wallet) acct p (signHash W d)
              # (case SignHashWithPassphrase wallet acct p (signHash W d) of
                   None \<Rightarrow> []
                 | Some sig \<Rightarrow>
                     if length sig \<le> 64 then []
                     else [Stdout (Encode (sig[64 := sig ! 64 + 27]) @ [CHR 0x0A])]),
            case SignHashWithPassphrase wallet acct p (signHash W d) of
              None \<Rightarrow> Inl (ExitError ''ethsign: failed to sign tx'' 1)
            | Some sig \<Rightarrow> if length sig \<le> 64 then Inl Panic else Inr ())"
proof -
  obtain ea r where m: "msg_arguments W c = (ea, r)" by (cases "msg_arguments W c")
  have ea: "ea = []" using events_msg_arguments [of W c] m by simp
  show ?thesis
  proof (cases r)
    case (Inl e)
    with m ea have "msg_arguments W c = ([], Inl e)" by simp
    moreover from this have "message W c = ([], Inl e)"
      by (simp add: message_def bind_io_Inl)
    ultimately show ?thesis by (rule arguments)
  next
    case (Inr fd)
    obtain f d where fd: "fd = (f, d)" by (cases fd)
    note A = m [unfolded Inr ea fd]
    obtain hevs ws where G: "getWallets W (c_String c ''key-store'') = (hevs, Inr ws)"
      by (simp add: getWallets_eq)
    obtain sevs sr where S: "scan ws f = (sevs, sr)"
      by (cases "scan ws f")
    show ?thesis
    proof (cases sr)
      case (Inl e)
      note S' = S [unfolded Inl]
      show ?thesis by (rule scan_failed [OF A G S' message_scan_failed [OF A G S']])
    next
      case (Inr found)
      show ?thesis
      proof (cases found)
        case None
        note S' = S [unfolded Inr None]
        show ?thesis by (rule not_found [OF A G S' message_not_found [OF A G S']])
      next
        case (Some wan)
        obtain wallet acct np where wan: "wan = (wallet, acct, np)" by (cases wan)
        note S' = S [unfolded Inr Some wan]
        obtain pevs pr where P: "get_passphrase W c np = (pevs, pr)"
          by (cases "get_passphrase W c np")
        show ?thesis
        proof (cases pr)
          case (Inl e)
          note P' = P [unfolded Inl]
          show ?thesis
            by (rule no_passphrase [OF A G S' P' message_no_passphrase [OF A G S' P']])
        next
          case (Inr pw)
          note P' = P [unfolded Inr]
          show ?thesis
            by (rule signs [OF A G S' P' message_signs [OF A G S' P']])
        qed
      qed
    qed
  qed
qed

subsection \<open>Standard output\<close>

lemma stdout_append: "stdout (xs @ ys) = stdout xs @ stdout ys"
  by (simp add: stdout_def)

lemma stdout_silent: "(\<And>e. e \<in> set evs \<Longrightarrow> stdout_text e = []) \<Longrightarrow> stdout evs = []"
  by (induction evs) (simp_all add: stdout_def)

lemma stdout_getWallets: "getWallets W store = (evs, r) \<Longrightarrow> stdout evs = []"
  by (rule stdout_silent) (auto dest: events_getWallets)

lemma stdout_scan: "scan ws f = (evs, r) \<Longrightarrow> stdout evs = []"
  by (rule stdout_silent) (auto dest: events_scan)

lemma stdout_get_passphrase: "get_passphrase W c np = (evs, r) \<Longrightarrow> stdout evs = []"
  by (rule stdout_silent) (auto dest: events_get_passphrase)

subsection \<open>Running the actions on the example worlds\<close>

lemma char_of_digit:
  "char_of (48 :: nat) = CHR ''0''" "char_of (49 :: nat) = CHR ''1''"
  "char_of (50 :: nat) = CHR ''2''" "char_of (51 :: nat) = CHR ''3''"
  by code_simp+

lemma pathstr_values:
  "pathstr 0 = ''m/44'/60'/0'/0''"
  "pathstr 1 = ''m/44'/60'/0'/1''"
  "pathstr 2 = ''m/44'/60'/0'/2''"
  "pathstr 3 = ''m/44'/60'/0'/3''"
  by (simp_all add: pathstr_def decimal.simps char_of_digit)

lemma pathstr_Suc_values:
  "pathstr (Suc 0) = ''m/44'/60'/0'/1''"
  "pathstr (Suc (Suc 0)) = ''m/44'/60'/0'/2''"
  "pathstr (Suc (Suc (Suc 0))) = ''m/44'/60'/0'/3''"
  using pathstr_values by (simp_all add: numeral_2_eq_2 numeral_3_eq_3)

lemma length_sig65: "length sig65 = 65"
  by (simp add: sig65_def)

lemmas run_defs =
  transaction_def tx_arguments_def message_def msg_arguments_def getWallets_eq
  bind_io_def return_io_def emit_def NewExitError_def must_def Println_def get_passphrase_def
  tx_requireds_def msg_requireds_def Let_def scan_derive.simps pathstr_values pathstr_Suc_values
  HasPrefix_def HasSuffix_def TrimSuffix_def signHash_def with_flag_def

lemmas demo_defs =
  demo_world_def locked_world_def flags_def tx_flags_def msg_flags_def ks_wallet_def
  ledger_wallet_def locked_ledger_def trezor_wallet_def acct_a_def acct_b_def acct_c_def
  addr_a_def addr_b_def addr_c_def ks_url_def ledger_url_def trezor_url_def

subsection \<open>What the scan finds\<close>

lemma scan_accounts_Some:
  "scan_accounts f ys = Some y \<Longrightarrow> y \<in> set ys \<and> Address y = f"
  by (induction ys) (auto split: if_splits)


lemma scan_derive_Some:
  "scan_derive x f j = (evs, Inr (Some y)) \<Longrightarrow>
     \<exists>i. j \<le> i \<and> i \<le> 3 \<and> Derive x (pathstr i) True = Some y \<and> Address y = f"
proof (induction x f j arbitrary: evs rule: scan_derive.induct)
  case (1 x f j)
  show ?case
  proof (cases "j \<le> 3")
    case False
    with "1.prems" show ?thesis by (simp add: scan_derive.simps [of x f j])
  next
    case True
    show ?thesis
    proof (cases "Derive x (pathstr j) True")
      case None
      with True "1.prems" show ?thesis by (simp add: scan_derive.simps [of x f j])
    next
      case (Some z)
      show ?thesis
      proof (cases "Address z = f")
        case yes: True
        with True Some "1.prems" have "y = z" by (simp add: scan_derive.simps [of x f j])
        with True Some yes show ?thesis by blast
      next
        case no: False
        obtain evs' r where rec: "scan_derive x f (j + 1) = (evs', r)"
          by (cases "scan_derive x f (j + 1)")
        with True Some no "1.prems" have "r = Inr (Some y)"
          by (simp add: scan_derive.simps [of x f j])
        with rec "1.IH" [OF True Some no] obtain i where
          "j + 1 \<le> i" "i \<le> 3" "Derive x (pathstr i) True = Some y" "Address y = f"
          by blast
        then show ?thesis by (intro exI [of _ i]) simp
      qed
    qed
  qed
qed

lemma scan_Some:
  "scan ws f = (evs, Inr (Some (w, a, np))) \<Longrightarrow>
     w \<in> set ws \<and> Address a = f \<and>
     ((Scheme (URL w) = ''keystore'' \<and> a \<in> set (Accounts w) \<and> np) \<or>
      (Scheme (URL w) = ''ledger'' \<and> (\<exists>i\<le>3. Derive w (pathstr i) True = Some a) \<and> \<not> np))"
proof (induction ws f arbitrary: evs rule: scan.induct)
  case (1 f)
  then show ?case by simp
next
  case (2 x xs f)
  show ?case
  proof (cases "Scheme (URL x) = ''keystore''")
    case ks: True
    show ?thesis
    proof (cases "scan_accounts f (Accounts x)")
      case None
      with ks "2.prems" "2.IH"(1) [OF ks None] show ?thesis by auto
    next
      case (Some y)
      with ks "2.prems" scan_accounts_Some [OF Some] show ?thesis by auto
    qed
  next
    case nks: False
    show ?thesis
    proof (cases "Scheme (URL x) = ''ledger''")
      case False
      with nks "2.prems" "2.IH"(3) [OF nks False] show ?thesis by auto
    next
      case led: True
      obtain devs dr where D: "scan_derive x f 0 = (devs, dr)"
        by (cases "scan_derive x f 0")
      show ?thesis
      proof (cases dr)
        case (Inl e)
        with nks led D "2.prems" show ?thesis by simp
      next
        case (Inr found)
        show ?thesis
        proof (cases found)
          case (Some y)
          from scan_derive_Some [OF D [unfolded Inr Some]]
          have "\<exists>i\<le>3. Derive x (pathstr i) True = Some y" "Address y = f" by auto
          with nks led D Inr Some "2.prems" show ?thesis by auto
        next
          case None
          obtain evs' r where rec: "scan xs f = (evs', r)" by (cases "scan xs f")
          with nks led D Inr None "2.prems" have r: "r = Inr (Some (w, a, np))" by simp
          from "2.IH"(2) [OF nks led D [unfolded Inr None, symmetric] refl refl
              rec [unfolded r]]
          show ?thesis by auto
        qed
      qed
    qed
  qed
qed

lemma scan_needPassphrase:
  assumes "scan ws f = (evs, Inr (Some (w, a, np)))"
  shows "np \<longleftrightarrow> Scheme (URL w) = ''keystore''"
  using scan_Some [OF assms] by auto

subsection \<open>The runs after the scan has found an account\<close>

lemma transaction_located:
  assumes "tx_arguments W c = (ea, Inr a)"
    and "getWallets W (c_String c ''key-store'') = (hevs, Inr ws)"
    and "scan ws (arg_from a) = (sevs, Inr (Some (wallet, acct, np)))"
    and "t = (if arg_create a
              then NewContractCreation (arg_nonce a) (arg_value a) (arg_gasLimit a)
                     (arg_gasPrice a) (arg_data a)
              else NewTransaction (arg_nonce a) (arg_to a) (arg_value a) (arg_gasLimit a)
                     (arg_gasPrice a) (arg_data a))"
  shows "transaction W c =
           (case get_passphrase W c np of
              (pevs, Inl e) \<Rightarrow> (hevs @ sevs @ pevs, Inl e)
            | (pevs, Inr p) \<Rightarrow>
                (hevs @ sevs @ pevs @ SignTx (URL wallet) acct p t (arg_chainID a)
                   # (case SignTxWithPassphrase wallet acct p t (arg_chainID a) of
                        None \<Rightarrow> []
                      | Some signedTx \<Rightarrow>
                          [Stdout (Encode (EncodeToBytes W signedTx) @ [CHR 0x0A])]),
                 case SignTxWithPassphrase wallet acct p t (arg_chainID a) of
                   None \<Rightarrow> Inl (ExitError ''ethsign: failed to sign tx'' 1)
                 | Some signedTx \<Rightarrow> Inr ()))"
proof -
  obtain pevs pr where P: "get_passphrase W c np = (pevs, pr)"
    by (cases "get_passphrase W c np")
  show ?thesis
  proof (cases pr)
    case (Inl e)
    with transaction_no_passphrase [OF assms(1-3) P [unfolded Inl]] P show ?thesis by simp
  next
    case (Inr p)
    with transaction_signs [OF assms(1-3) P [unfolded Inr] assms(4)] P show ?thesis by simp
  qed
qed

lemma message_located:
  assumes "msg_arguments W c = (ea, Inr (f, d))"
    and "getWallets W (c_String c ''key-store'') = (hevs, Inr ws)"
    and "scan ws f = (sevs, Inr (Some (wallet, acct, np)))"
  shows "message W c =
           (case get_passphrase W c np of
              (pevs, Inl e) \<Rightarrow> (hevs @ sevs @ pevs, Inl e)
            | (pevs, Inr p) \<Rightarrow>
                (hevs @ sevs @ pevs @ SignHash (URL wallet) acct p (signHash W d)
                   # (case SignHashWithPassphrase wallet acct p (signHash W d) of
                        None \<Rightarrow> []
                      | Some sig \<Rightarrow>
                          if length sig \<le> 64 then []
                          else [Stdout (Encode (sig[64 := sig ! 64 + 27]) @ [CHR 0x0A])]),
                 case SignHashWithPassphrase wallet acct p (signHash W d) of
                   None \<Rightarrow> Inl (ExitError ''ethsign: failed to sign tx'' 1)
                 | Some sig \<Rightarrow> if length sig \<le> 64 then Inl Panic else Inr ()))"
proof -
  obtain pevs pr where P: "get_passphrase W c np = (pevs, pr)"
    by (cases "get_passphrase W c np")
  show ?thesis
  proof (cases pr)
    case (Inl e)
    with message_no_passphrase [OF assms P [unfolded Inl]] P show ?thesis by simp
  next
    case (Inr p)
    with message_signs [OF assms P [unfolded Inr]] P show ?thesis by simp
  qed
qed

lemma get_passphrase_needed:
  "get_passphrase W c True =
     (if c_String c ''passphrase-file'' \<noteq> '''' then
        ([FileRead (c_String c ''passphrase-file'')],
         case ReadFile W (c_String c ''passphrase-file'') of
           None \<Rightarrow> Inl (ExitError ''ethsign: failed to read passphrase file'' 1)
         | Some passphraseFile \<Rightarrow> Inr (TrimSuffix passphraseFile [CHR 0x0A]))
      else
        ([Stderr ''Ethereum account passphrase (not echoed): '', PasswordRead],
         case ReadPassword W of
           None \<Rightarrow> Inl (ExitError ''ethsign: failed to read passphrase'' 1)
         | Some bytes \<Rightarrow> Inr bytes))"
  by (simp add: get_passphrase_file get_passphrase_terminal)

lemma no_read_getWallets:
  "getWallets W store = (evs, r) \<Longrightarrow> e \<in> set evs \<Longrightarrow>
     \<not> is_passphrase_read e \<and> \<not> is_sign e
     \<and> e \<noteq> Stderr ''Ethereum account passphrase (not echoed): ''"
  by (auto simp: getWallets_eq split: option.splits)

lemma no_read_scan:
  "scan ws f = (evs, r) \<Longrightarrow> e \<in> set evs \<Longrightarrow>
     \<not> is_passphrase_read e \<and> \<not> is_sign e
     \<and> e \<noteq> Stderr ''Ethereum account passphrase (not echoed): ''"
  by (auto dest: events_scan)

subsection \<open>The example world\<close>

lemma demo_getWallets:
  "getWallets demo_world store = ([], Inr [ks_wallet, ledger_wallet, trezor_wallet])"
  by (simp add: getWallets_eq demo_world_def)

lemma demo_scan_a:
  "scan [ks_wallet, ledger_wallet, trezor_wallet] addr_a =
     ([], Inr (Some (ks_wallet, acct_a, True)))"
  by (simp add: ks_wallet_def ks_url_def acct_a_def)

lemma demo_scan_b:
  "scan [ks_wallet, ledger_wallet, trezor_wallet] addr_b =
     ([WalletOpen ledger_url '''', WalletDerive ledger_url ''m/44'/60'/0'/0'' True],
      Inr (Some (ledger_wallet, acct_b, False)))"
  by (simp add: demo_defs scan_derive.simps pathstr_values)

lemma demo_tx_arguments:
  "tx_arguments demo_world (tx_flags ''0xaa'') =
     ([], Inr \<lparr>arg_create = False, arg_to = addr_b, arg_from = addr_a, arg_nonce = 7,
                arg_gasPrice = 1, arg_gasLimit = 1, arg_value = 1, arg_chainID = 1,
                arg_data = [1, 255]\<rparr>)"
  "tx_arguments demo_world (with_flag (tx_flags ''0xaa'') ''passphrase-file'' ''/pw'') =
     ([], Inr \<lparr>arg_create = False, arg_to = addr_b, arg_from = addr_a, arg_nonce = 7,
                arg_gasPrice = 1, arg_gasLimit = 1, arg_value = 1, arg_chainID = 1,
                arg_data = [1, 255]\<rparr>)"
  "tx_arguments demo_world (tx_flags ''0xbb'') =
     ([], Inr \<lparr>arg_create = False, arg_to = addr_b, arg_from = addr_b, arg_nonce = 7,
                arg_gasPrice = 1, arg_gasLimit = 1, arg_value = 1, arg_chainID = 1,
                arg_data = [1, 255]\<rparr>)"
  by (simp_all add: run_defs demo_defs)

lemma demo_msg_arguments:
  "msg_arguments demo_world (msg_flags ''0xaa'') = ([], Inr (addr_a, [1, 255]))"
  "msg_arguments demo_world (msg_flags ''0xbb'') = ([], Inr (addr_b, [1, 255]))"
  by (simp_all add: run_defs demo_defs)

subsection \<open>The required flags\<close>

text \<open>
  Claim C2. The check of the required flags comes first in both actions: when one of
  \<^verbatim>\<open>--nonce\<close>, \<^verbatim>\<open>--value\<close>, \<^verbatim>\<open>--gas-price\<close>, \<^verbatim>\<open>--gas-limit\<close>, \<^verbatim>\<open>--chain-id\<close>, \<^verbatim>\<open>--from\<close> is empty,
  \<^verbatim>\<open>transaction\<close> returns the exit error that names a missing flag, and so does \<^verbatim>\<open>message\<close> when
  \<^verbatim>\<open>--from\<close> or \<^verbatim>\<open>--data\<close> is empty. The run has no effect at all before that: no wallet is
  opened, nothing is read and nothing is signed.
\<close>

theorem required_flags_enforced:
  "((\<exists>n\<in>{''nonce'', ''value'', ''gas-price'', ''gas-limit'', ''chain-id'', ''from''}.
        c_String c n = '''') \<longrightarrow>
    (\<exists>n\<in>{''nonce'', ''value'', ''gas-price'', ''gas-limit'', ''chain-id'', ''from''}.
        c_String c n = '''' \<and>
        transaction W c =
          ([], Inl (ExitError (''ethsign: missing required parameter --'' @ n) 1))))
   \<and> ((\<exists>n\<in>{''from'', ''data''}. c_String c n = '''') \<longrightarrow>
    (\<exists>n\<in>{''from'', ''data''}.
        c_String c n = '''' \<and>
        message W c =
          ([], Inl (ExitError (''ethsign: missing required parameter --'' @ n) 1))))"
proof (intro conjI impI)
  assume "\<exists>n\<in>{''nonce'', ''value'', ''gas-price'', ''gas-limit'', ''chain-id'', ''from''}.
            c_String c n = ''''"
  then have "\<exists>n\<in>set tx_requireds. c_String c n = ''''"
    by (simp add: tx_requireds_def)
  from check_requireds_missing [OF this]
  obtain n where n: "n \<in> set tx_requireds" "c_String c n = ''''"
    "check_requireds c tx_requireds =
       ([], Inl (ExitError (''ethsign: missing required parameter --'' @ n) 1))"
    by blast
  have "transaction W c = ([], Inl (ExitError (''ethsign: missing required parameter --'' @ n) 1))"
    by (simp add: transaction_def tx_arguments_def n(3) bind_io_Inl)
  with n(1,2) show "\<exists>n\<in>{''nonce'', ''value'', ''gas-price'', ''gas-limit'', ''chain-id'', ''from''}.
        c_String c n = '''' \<and>
        transaction W c =
          ([], Inl (ExitError (''ethsign: missing required parameter --'' @ n) 1))"
    unfolding tx_requireds_def by (intro bexI [of _ n]) simp_all
next
  assume "\<exists>n\<in>{''from'', ''data''}. c_String c n = ''''"
  then have "\<exists>n\<in>set msg_requireds. c_String c n = ''''"
    by (simp add: msg_requireds_def)
  from check_requireds_missing [OF this]
  obtain n where n: "n \<in> set msg_requireds" "c_String c n = ''''"
    "check_requireds c msg_requireds =
       ([], Inl (ExitError (''ethsign: missing required parameter --'' @ n) 1))"
    by blast
  have "message W c = ([], Inl (ExitError (''ethsign: missing required parameter --'' @ n) 1))"
    by (simp add: message_def msg_arguments_def n(3) bind_io_Inl)
  with n(1,2) show "\<exists>n\<in>{''from'', ''data''}.
        c_String c n = '''' \<and>
        message W c =
          ([], Inl (ExitError (''ethsign: missing required parameter --'' @ n) 1))"
    unfolding msg_requireds_def by (intro bexI [of _ n]) simp_all
qed

text \<open>A command line that gives \<^verbatim>\<open>--from\<close> only.\<close>

theorem required_flags_enforced_witness:
  "(\<exists>n\<in>{''nonce'', ''value'', ''gas-price'', ''gas-limit'', ''chain-id'', ''from''}.
        c_String (flags [(''from'', ''0xaa'')] False) n = '''')
   \<and> (\<exists>n\<in>{''nonce'', ''value'', ''gas-price'', ''gas-limit'', ''chain-id'', ''from''}.
        c_String (flags [(''from'', ''0xaa'')] False) n = '''' \<and>
        transaction demo_world (flags [(''from'', ''0xaa'')] False) =
          ([], Inl (ExitError (''ethsign: missing required parameter --'' @ n) 1)))
   \<and> (\<exists>n\<in>{''from'', ''data''}. c_String (flags [(''from'', ''0xaa'')] False) n = '''')
   \<and> (\<exists>n\<in>{''from'', ''data''}.
        c_String (flags [(''from'', ''0xaa'')] False) n = '''' \<and>
        message demo_world (flags [(''from'', ''0xaa'')] False) =
          ([], Inl (ExitError (''ethsign: missing required parameter --'' @ n) 1)))"
proof -
  have h1: "\<exists>n\<in>{''nonce'', ''value'', ''gas-price'', ''gas-limit'', ''chain-id'', ''from''}.
        c_String (flags [(''from'', ''0xaa'')] False) n = ''''"
    by (simp add: flags_def)
  have h2: "\<exists>n\<in>{''from'', ''data''}. c_String (flags [(''from'', ''0xaa'')] False) n = ''''"
    by (simp add: flags_def)
  from required_flags_enforced [of "flags [(''from'', ''0xaa'')] False" demo_world] h1 h2
  show ?thesis by blast
qed

subsection \<open>The checks of \<^verbatim>\<open>--to\<close>, \<^verbatim>\<open>--create\<close> and \<^verbatim>\<open>--data\<close>\<close>

lemma tx_arguments_not_one:
  assumes "\<forall>n\<in>set tx_requireds. c_String c n \<noteq> ''''"
    and "(c_String c ''to'' \<noteq> '''') = c_Bool c ''create''"
  shows "tx_arguments W c =
           ([], Inl (ExitError ''ethsign: need exactly one of --to or --create'' 1))"
  using assms(2)
  by (auto simp: tx_arguments_def check_requireds_ok [OF assms(1)] bind_io_Inr Let_def
        NewExitError_def)

lemma tx_arguments_no_data:
  assumes "\<forall>n\<in>set tx_requireds. c_String c n \<noteq> ''''"
    and "c_String c ''to'' = ''''" and "c_Bool c ''create''" and "c_String c ''data'' = ''''"
  shows "tx_arguments W c =
           ([], Inl (ExitError ''ethsign: need --data when doing --create'' 1))"
  using assms(2-4)
  by (simp add: tx_arguments_def check_requireds_ok [OF assms(1)] bind_io_Inr Let_def
        NewExitError_def)

lemma transaction_SignTx:
  assumes "SignTx u acct p t k \<in> set (fst (transaction W c))"
  shows "\<exists>a. tx_arguments W c = ([], Inr a) \<and> k = arg_chainID a \<and>
           t = (if arg_create a
                then NewContractCreation (arg_nonce a) (arg_value a) (arg_gasLimit a)
                       (arg_gasPrice a) (arg_data a)
                else NewTransaction (arg_nonce a) (arg_to a) (arg_value a) (arg_gasLimit a)
                       (arg_gasPrice a) (arg_data a))"
proof (cases W c rule: transaction_cases)
  case (arguments e)
  with assms show ?thesis by simp
next
  case (scan_failed a hevs ws sevs e)
  with assms events_getWallets [OF scan_failed(2)] events_scan [OF scan_failed(3)]
  show ?thesis by auto
next
  case (not_found a hevs ws sevs)
  with assms events_getWallets [OF not_found(2)] events_scan [OF not_found(3)]
  show ?thesis by auto
next
  case (no_passphrase a hevs ws sevs wallet acct' np pevs e)
  with assms events_getWallets [OF no_passphrase(2)] events_scan [OF no_passphrase(3)]
    events_get_passphrase [OF no_passphrase(4)]
  show ?thesis by auto
next
  case (signs a hevs ws sevs wallet acct' np pevs p' t')
  have "SignTx u acct p t k \<notin> set hevs" "SignTx u acct p t k \<notin> set sevs"
    "SignTx u acct p t k \<notin> set pevs"
    using events_getWallets [OF signs(2)] events_scan [OF signs(3)]
      events_get_passphrase [OF signs(4)] by blast+
  with assms signs(6) have "t = t'" "k = arg_chainID a"
    by (auto split: option.splits)
  with signs(1,5) show ?thesis by blast
qed

text \<open>
  Claim C6. In a run of \<^verbatim>\<open>transaction\<close> that passes the check of the required flags, the
  checks come in this order. Unless exactly one of \<^verbatim>\<open>--to\<close> (not empty) and \<^verbatim>\<open>--create\<close> is
  given, the action returns the exit error \<^verbatim>\<open>need exactly one of --to or --create\<close>. When that
  check passes and \<^verbatim>\<open>--create\<close> is given without \<^verbatim>\<open>--data\<close>, it returns the exit error
  \<^verbatim>\<open>need --data when doing --create\<close>. Otherwise the transaction that is handed to the
  signer is a contract creation when \<^verbatim>\<open>--create\<close> is set and a transaction to the address of
  \<^verbatim>\<open>--to\<close> when it is not, with the values parsed from the flags; a run that returns \<^verbatim>\<open>nil\<close>
  has handed one to the signer.
\<close>

theorem transaction_to_create:
  "(\<forall>n\<in>{''nonce'', ''value'', ''gas-price'', ''gas-limit'', ''chain-id'', ''from''}.
       c_String c n \<noteq> '''') \<longrightarrow>
     ((c_String c ''to'' \<noteq> '''') = c_Bool c ''create'' \<longrightarrow>
        transaction W c =
          ([], Inl (ExitError ''ethsign: need exactly one of --to or --create'' 1)))
   \<and> ((c_String c ''to'' \<noteq> '''') \<noteq> c_Bool c ''create'' \<and> c_Bool c ''create''
          \<and> c_String c ''data'' = '''' \<longrightarrow>
        transaction W c =
          ([], Inl (ExitError ''ethsign: need --data when doing --create'' 1)))
   \<and> (\<forall>u acct p t k. SignTx u acct p t k \<in> set (fst (transaction W c)) \<longrightarrow>
        (\<exists>nonce val gasLimit gasPrice data.
           ParseUint64 W (c_String c ''nonce'') = Some nonce
         \<and> ParseBig256 W (c_String c ''value'') = Some val
         \<and> ParseBig256 W (c_String c ''gas-limit'') = Some gasLimit
         \<and> ParseBig256 W (c_String c ''gas-price'') = Some gasPrice
         \<and> Decode W (if c_String c ''data'' = '''' then ''0x'' else c_String c ''data'')
             = Some data
         \<and> t = (if c_Bool c ''create''
                then NewContractCreation nonce val gasLimit gasPrice data
                else NewTransaction nonce (HexToAddress W (c_String c ''to'')) val gasLimit
                       gasPrice data)))
   \<and> (snd (transaction W c) = Inr () \<longrightarrow>
        (\<exists>u acct p t k. SignTx u acct p t k \<in> set (fst (transaction W c))))"
proof (intro impI conjI allI)
  assume req: "\<forall>n\<in>{''nonce'', ''value'', ''gas-price'', ''gas-limit'', ''chain-id'', ''from''}.
                 c_String c n \<noteq> ''''"
  then have req': "\<forall>n\<in>set tx_requireds. c_String c n \<noteq> ''''"
    by (simp add: tx_requireds_def)
  {
    assume "(c_String c ''to'' \<noteq> '''') = c_Bool c ''create''"
    from tx_arguments_not_one [OF req' this]
    show "transaction W c =
            ([], Inl (ExitError ''ethsign: need exactly one of --to or --create'' 1))"
      by (simp add: transaction_def bind_io_Inl)
  }
  {
    assume "(c_String c ''to'' \<noteq> '''') \<noteq> c_Bool c ''create'' \<and> c_Bool c ''create''
              \<and> c_String c ''data'' = ''''"
    then have "c_String c ''to'' = ''''" "c_Bool c ''create''" "c_String c ''data'' = ''''"
      by auto
    from tx_arguments_no_data [OF req' this]
    show "transaction W c =
            ([], Inl (ExitError ''ethsign: need --data when doing --create'' 1))"
      by (simp add: transaction_def bind_io_Inl)
  }
  {
    fix u acct p t k
    assume "SignTx u acct p t k \<in> set (fst (transaction W c))"
    from transaction_SignTx [OF this] obtain a where
      a: "tx_arguments W c = ([], Inr a)"
      and t: "t = (if arg_create a
                then NewContractCreation (arg_nonce a) (arg_value a) (arg_gasLimit a)
                       (arg_gasPrice a) (arg_data a)
                else NewTransaction (arg_nonce a) (arg_to a) (arg_value a) (arg_gasLimit a)
                       (arg_gasPrice a) (arg_data a))"
      by blast
    note f = tx_arguments_Inr [OF a]
    show "\<exists>nonce val gasLimit gasPrice data.
           ParseUint64 W (c_String c ''nonce'') = Some nonce
         \<and> ParseBig256 W (c_String c ''value'') = Some val
         \<and> ParseBig256 W (c_String c ''gas-limit'') = Some gasLimit
         \<and> ParseBig256 W (c_String c ''gas-price'') = Some gasPrice
         \<and> Decode W (if c_String c ''data'' = '''' then ''0x'' else c_String c ''data'')
             = Some data
         \<and> t = (if c_Bool c ''create''
                then NewContractCreation nonce val gasLimit gasPrice data
                else NewTransaction nonce (HexToAddress W (c_String c ''to'')) val gasLimit
                       gasPrice data)"
    proof (intro exI conjI)
      show "ParseUint64 W (c_String c ''nonce'') = Some (arg_nonce a)" by (rule f(8))
      show "ParseBig256 W (c_String c ''value'') = Some (arg_value a)" by (rule f(11))
      show "ParseBig256 W (c_String c ''gas-limit'') = Some (arg_gasLimit a)" by (rule f(10))
      show "ParseBig256 W (c_String c ''gas-price'') = Some (arg_gasPrice a)" by (rule f(9))
      show "Decode W (if c_String c ''data'' = '''' then ''0x'' else c_String c ''data'')
              = Some (arg_data a)" by (rule f(13))
      show "t = (if c_Bool c ''create''
                then NewContractCreation (arg_nonce a) (arg_value a) (arg_gasLimit a)
                       (arg_gasPrice a) (arg_data a)
                else NewTransaction (arg_nonce a) (HexToAddress W (c_String c ''to''))
                       (arg_value a) (arg_gasLimit a) (arg_gasPrice a) (arg_data a))"
        using t f(5,6) by simp
    qed
  }
  {
    assume ok: "snd (transaction W c) = Inr ()"
    obtain evs where "transaction W c = (evs, Inr ())"
      using ok by (cases "transaction W c") simp
    then show "\<exists>u acct p t k. SignTx u acct p t k \<in> set (fst (transaction W c))"
    proof (cases W c rule: transaction_cases)
      case (signs a hevs ws sevs wallet acct np pevs p t)
      then have "SignTx (URL wallet) acct p t (arg_chainID a) \<in> set (fst (transaction W c))"
        by simp
      then show ?thesis by blast
    qed simp_all
  }
qed

text \<open>
  Three command lines on the example world: neither \<^verbatim>\<open>--to\<close> nor \<^verbatim>\<open>--create\<close>; \<^verbatim>\<open>--create\<close>
  without \<^verbatim>\<open>--data\<close>; and a transfer that is signed.
\<close>

theorem transaction_to_create_witness:
  "list_all (\<lambda>n. c_String (with_flag (tx_flags ''0xaa'') ''to'' '''') n \<noteq> '''')
     [''nonce'', ''value'', ''gas-price'', ''gas-limit'', ''chain-id'', ''from'']
   \<and> (c_String (with_flag (tx_flags ''0xaa'') ''to'' '''') ''to'' \<noteq> '''')
       = c_Bool (with_flag (tx_flags ''0xaa'') ''to'' '''') ''create''
   \<and> transaction demo_world (with_flag (tx_flags ''0xaa'') ''to'' '''') =
         ([], Inl (ExitError ''ethsign: need exactly one of --to or --create'' 1))
   \<and> c_Bool (with_flag (with_flag ((tx_flags ''0xaa'')\<lparr>c_Bool := (\<lambda>n. n = ''create'')\<rparr>)
                 ''to'' '''') ''data'' '''') ''create''
   \<and> transaction demo_world
         (with_flag (with_flag ((tx_flags ''0xaa'')\<lparr>c_Bool := (\<lambda>n. n = ''create'')\<rparr>)
            ''to'' '''') ''data'' '''') =
         ([], Inl (ExitError ''ethsign: need --data when doing --create'' 1))
   \<and> SignTx ledger_url acct_b '''' (NewTransaction 7 addr_b 1 1 1 [1, 255]) 1
         \<in> set (fst (transaction demo_world (tx_flags ''0xbb'')))
   \<and> (\<exists>nonce val gasLimit gasPrice data.
         ParseUint64 demo_world (c_String (tx_flags ''0xbb'') ''nonce'') = Some nonce
       \<and> NewTransaction 7 addr_b 1 1 1 [1, 255] =
           (if c_Bool (tx_flags ''0xbb'') ''create''
            then NewContractCreation nonce val gasLimit gasPrice data
            else NewTransaction nonce (HexToAddress demo_world (c_String (tx_flags ''0xbb'') ''to''))
                   val gasLimit gasPrice data))"
proof -
  let ?c1 = "with_flag (tx_flags ''0xaa'') ''to'' ''''"
  let ?c2 = "with_flag (with_flag ((tx_flags ''0xaa'')\<lparr>c_Bool := (\<lambda>n. n = ''create'')\<rparr>)
               ''to'' '''') ''data'' ''''"
  let ?c3 = "tx_flags ''0xbb''"
  have r1: "\<forall>n\<in>{''nonce'', ''value'', ''gas-price'', ''gas-limit'', ''chain-id'', ''from''}.
              c_String ?c1 n \<noteq> ''''"
    by (simp add: with_flag_def tx_flags_def flags_def)
  have r2: "\<forall>n\<in>{''nonce'', ''value'', ''gas-price'', ''gas-limit'', ''chain-id'', ''from''}.
              c_String ?c2 n \<noteq> ''''"
    by (simp add: with_flag_def tx_flags_def flags_def)
  have r3: "\<forall>n\<in>{''nonce'', ''value'', ''gas-price'', ''gas-limit'', ''chain-id'', ''from''}.
              c_String ?c3 n \<noteq> ''''"
    by (simp add: with_flag_def tx_flags_def flags_def)
  have h1: "(c_String ?c1 ''to'' \<noteq> '''') = c_Bool ?c1 ''create''"
    by (simp add: with_flag_def tx_flags_def flags_def)
  have h2: "(c_String ?c2 ''to'' \<noteq> '''') \<noteq> c_Bool ?c2 ''create'' \<and> c_Bool ?c2 ''create''
              \<and> c_String ?c2 ''data'' = ''''"
    by (simp add: with_flag_def tx_flags_def flags_def)
  have run: "transaction demo_world ?c3 =
     ([WalletOpen ledger_url '''', WalletDerive ledger_url ''m/44'/60'/0'/0'' True,
       Stderr (''Waiting for hardware wallet confirmation...'' @ [CHR 0x0A]),
       SignTx ledger_url acct_b '''' (NewTransaction 7 addr_b 1 1 1 [1, 255]) 1,
       Stdout (''0x01ff'' @ [CHR 0x0A])], Inr ())"
    by (simp add: run_defs demo_defs NewTransaction_def Encode_def hex_byte_def hex_digit_def)
  have h3: "SignTx ledger_url acct_b '''' (NewTransaction 7 addr_b 1 1 1 [1, 255]) 1
              \<in> set (fst (transaction demo_world ?c3))"
    by (simp add: run)
  from transaction_to_create [of ?c1 demo_world] r1 h1
  have c1: "transaction demo_world ?c1 =
         ([], Inl (ExitError ''ethsign: need exactly one of --to or --create'' 1))"
    by blast
  from transaction_to_create [of ?c2 demo_world] r2 h2
  have c2: "transaction demo_world ?c2 =
         ([], Inl (ExitError ''ethsign: need --data when doing --create'' 1))"
    by blast
  from transaction_to_create [of ?c3 demo_world] r3 h3
  have c3: "\<exists>nonce val gasLimit gasPrice data.
         ParseUint64 demo_world (c_String ?c3 ''nonce'') = Some nonce
       \<and> NewTransaction 7 addr_b 1 1 1 [1, 255] =
           (if c_Bool ?c3 ''create''
            then NewContractCreation nonce val gasLimit gasPrice data
            else NewTransaction nonce (HexToAddress demo_world (c_String ?c3 ''to''))
                   val gasLimit gasPrice data)"
    by blast
  have r1': "list_all (\<lambda>n. c_String ?c1 n \<noteq> '''')
               [''nonce'', ''value'', ''gas-price'', ''gas-limit'', ''chain-id'', ''from'']"
    using r1 by simp
  from r1' h1 c1 h2 c2 h3 c3 show ?thesis by blast
qed

subsection \<open>The account locator\<close>








subsection \<open>The derivation paths\<close>

lemma scan_derive_end: "scan_derive x f 4 = ([], Inr None)"
  by (simp add: scan_derive.simps [of x f 4])

lemma list_derive_end: "list_derive W x 4 = ([], Inr ())"
  by (simp add: list_derive.simps [of W x 4])

lemma scan_derive_paths:
  "j \<le> 3 \<Longrightarrow>
   \<exists>n. j \<le> n \<and> n \<le> 3 \<and> derived (fst (scan_derive x f j)) = map pathstr [j..<Suc n]
     \<and> (\<forall>i. j \<le> i \<and> i < n \<longrightarrow> (\<exists>y. Derive x (pathstr i) True = Some y \<and> Address y \<noteq> f))
     \<and> (n < 3 \<longrightarrow> (case Derive x (pathstr n) True of None \<Rightarrow> True | Some y \<Rightarrow> Address y = f))"
proof (induction x f j rule: scan_derive.induct)
  case (1 x f j)
  note j = \<open>j \<le> 3\<close>
  show ?case
  proof (cases "Derive x (pathstr j) True")
    case None
    with j have "derived (fst (scan_derive x f j)) = map pathstr [j..<Suc j]"
      by (simp add: scan_derive.simps [of x f j])
    with j None show ?thesis by (intro exI [of _ j]) auto
  next
    case (Some y)
    show ?thesis
    proof (cases "Address y = f")
      case True
      with j Some have "derived (fst (scan_derive x f j)) = map pathstr [j..<Suc j]"
        by (simp add: scan_derive.simps [of x f j])
      with j Some True show ?thesis by (intro exI [of _ j]) auto
    next
      case False
      have unfold: "derived (fst (scan_derive x f j)) =
                      pathstr j # derived (fst (scan_derive x f (j + 1)))"
        using j Some False by (simp add: scan_derive.simps [of x f j] split: prod.splits)
      show ?thesis
      proof (cases "j = 3")
        case True
        with unfold scan_derive_end [of x f]
        have "derived (fst (scan_derive x f j)) = map pathstr [j..<Suc j]" by simp
        with True show ?thesis by (intro exI [of _ j]) auto
      next
        case nj: False
        with j have "j + 1 \<le> 3" by simp
        from "1.IH" [OF j Some False this] obtain n where
          n: "j + 1 \<le> n" "n \<le> 3"
            "derived (fst (scan_derive x f (j + 1))) = map pathstr [j + 1..<Suc n]"
            "\<forall>i. j + 1 \<le> i \<and> i < n \<longrightarrow>
                 (\<exists>y. Derive x (pathstr i) True = Some y \<and> Address y \<noteq> f)"
            "n < 3 \<longrightarrow> (case Derive x (pathstr n) True of None \<Rightarrow> True
                          | Some y \<Rightarrow> Address y = f)"
          by blast
        from n(1) have "[j..<Suc n] = j # [j + 1..<Suc n]"
          by (simp add: upt_conv_Cons)
        with unfold n(3) have d: "derived (fst (scan_derive x f j)) = map pathstr [j..<Suc n]"
          by simp
        have before: "\<forall>i. j \<le> i \<and> i < n \<longrightarrow>
                 (\<exists>y. Derive x (pathstr i) True = Some y \<and> Address y \<noteq> f)"
        proof (intro allI impI)
          fix i assume i: "j \<le> i \<and> i < n"
          show "\<exists>y. Derive x (pathstr i) True = Some y \<and> Address y \<noteq> f"
          proof (cases "i = j")
            case True
            with Some False show ?thesis by simp
          next
            case False
            with i have "j + 1 \<le> i \<and> i < n" by simp
            with n(4) show ?thesis by blast
          qed
        qed
        from n(1,2) d before n(5) show ?thesis by (intro exI [of _ n]) auto
      qed
    qed
  qed
qed

lemma list_derive_paths:
  "j \<le> 3 \<Longrightarrow>
   \<exists>n. j \<le> n \<and> n \<le> 3 \<and> derived (fst (list_derive W x j)) = map pathstr [j..<Suc n]
     \<and> (\<forall>i. j \<le> i \<and> i < n \<longrightarrow> Derive x (pathstr i) False \<noteq> None)
     \<and> (n < 3 \<longrightarrow> Derive x (pathstr n) False = None)"
proof (induction W x j rule: list_derive.induct)
  case (1 W x j)
  note j = \<open>j \<le> 3\<close>
  show ?case
  proof (cases "Derive x (pathstr j) False")
    case None
    with j have "derived (fst (list_derive W x j)) = map pathstr [j..<Suc j]"
      by (simp add: list_derive.simps [of W x j])
    with j None show ?thesis by (intro exI [of _ j]) auto
  next
    case (Some z)
    have unfold: "derived (fst (list_derive W x j)) =
                    pathstr j # derived (fst (list_derive W x (j + 1)))"
      using j Some by (simp add: list_derive.simps [of W x j] split: prod.splits)
    show ?thesis
    proof (cases "j = 3")
      case True
      with unfold list_derive_end [of W x]
      have "derived (fst (list_derive W x j)) = map pathstr [j..<Suc j]" by simp
      with True show ?thesis by (intro exI [of _ j]) auto
    next
      case nj: False
      with j have "j + 1 \<le> 3" by simp
      from "1.IH" [OF j Some this] obtain n where
        n: "j + 1 \<le> n" "n \<le> 3"
          "derived (fst (list_derive W x (j + 1))) = map pathstr [j + 1..<Suc n]"
          "\<forall>i. j + 1 \<le> i \<and> i < n \<longrightarrow> Derive x (pathstr i) False \<noteq> None"
          "n < 3 \<longrightarrow> Derive x (pathstr n) False = None"
        by blast
      from n(1) have "[j..<Suc n] = j # [j + 1..<Suc n]"
        by (simp add: upt_conv_Cons)
      with unfold n(3) have d: "derived (fst (list_derive W x j)) = map pathstr [j..<Suc n]"
        by simp
      have before: "\<forall>i. j \<le> i \<and> i < n \<longrightarrow> Derive x (pathstr i) False \<noteq> None"
      proof (intro allI impI)
        fix i assume i: "j \<le> i \<and> i < n"
        show "Derive x (pathstr i) False \<noteq> None"
        proof (cases "i = j")
          case True
          with Some show ?thesis by simp
        next
          case False
          with i have "j + 1 \<le> i \<and> i < n" by simp
          with n(4) show ?thesis by blast
        qed
      qed
      from n(1,2) d before n(5) show ?thesis by (intro exI [of _ n]) auto
    qed
  qed
qed

lemma events_list_derive:
  "e \<in> set (fst (list_derive W x j)) \<Longrightarrow>
     (\<exists>s. e = Stdout s) \<or> (\<exists>i\<le>3. e = WalletDerive (URL x) (pathstr i) False)"
proof (induction W x j rule: list_derive.induct)
  case (1 W x j)
  then show ?case
    by (subst (asm) (2) list_derive.simps) (auto split: if_splits option.splits prod.splits)
qed

lemma events_list_wallets:
  "e \<in> set (fst (list_wallets W ws)) \<Longrightarrow>
     (\<exists>s. e = Stdout s) \<or> (\<exists>u s. e = WalletOpen u s)
     \<or> (\<exists>u. \<exists>i\<le>3. e = WalletDerive u (pathstr i) False)"
proof (induction W ws rule: list_wallets.induct)
  case (1 W)
  then show ?case by simp
next
  case (2 W x xs)
  show ?case
  proof (cases "Scheme (URL x) = ''keystore''")
    case True
    with "2.prems" "2.IH"(1) show ?thesis
      by (auto split: prod.splits)
  next
    case nks: False
    show ?thesis
    proof (cases "Scheme (URL x) = ''ledger''")
      case False
      with nks "2.prems" "2.IH"(3) show ?thesis by simp
    next
      case led: True
      obtain devs dr where D: "list_derive W x 0 = (devs, dr)"
        by (cases "list_derive W x 0")
      have devs: "e \<in> set devs \<Longrightarrow> ?thesis"
        using events_list_derive [of e W x 0] D by auto
      show ?thesis
      proof (cases dr)
        case (Inl err)
        with nks led D "2.prems" devs show ?thesis by auto
      next
        case (Inr u)
        obtain evs' r where rec: "list_wallets W xs = (evs', r)"
          by (cases "list_wallets W xs")
        have "e \<in> set evs' \<Longrightarrow> ?thesis"
          using "2.IH"(2) [OF nks led D [unfolded Inr, symmetric] refl] rec by simp
        with nks led D Inr rec "2.prems" devs show ?thesis by auto
      qed
    qed
  qed
qed

lemma four_paths:
  "i \<le> 3 \<Longrightarrow>
   pathstr i \<in> {''m/44'/60'/0'/0'', ''m/44'/60'/0'/1'', ''m/44'/60'/0'/2'', ''m/44'/60'/0'/3''}"
proof -
  assume "i \<le> 3"
  then have "i = 0 \<or> i = 1 \<or> i = 2 \<or> i = 3" by arith
  then show ?thesis using pathstr_values by auto
qed

lemma derive_list_accounts:
  assumes "WalletDerive u p pin \<in> set (fst (list_accounts W c))"
  shows "\<exists>i\<le>3. p = pathstr i"
proof -
  obtain hevs ws where G: "getWallets W (c_String c ''key-store'') = (hevs, Inr ws)"
    by (simp add: getWallets_eq)
  from assms G have "WalletDerive u p pin \<in> set hevs
      \<or> WalletDerive u p pin \<in> set (fst (list_wallets W ws))"
    by (auto simp: list_accounts_def bind_io_Inr)
  with events_getWallets [OF G] events_list_wallets [of "WalletDerive u p pin" W ws]
  show ?thesis by auto
qed

lemma derive_transaction:
  assumes "WalletDerive u p pin \<in> set (fst (transaction W c))"
  shows "\<exists>i\<le>3. p = pathstr i"
proof (cases W c rule: transaction_cases)
  case (arguments e)
  with assms show ?thesis by simp
next
  case (scan_failed a hevs ws sevs e)
  with assms events_getWallets [OF scan_failed(2)] events_scan [OF scan_failed(3)]
  show ?thesis by auto
next
  case (not_found a hevs ws sevs)
  with assms events_getWallets [OF not_found(2)] events_scan [OF not_found(3)]
  show ?thesis by auto
next
  case (no_passphrase a hevs ws sevs wallet acct np pevs e)
  with assms events_getWallets [OF no_passphrase(2)] events_scan [OF no_passphrase(3)]
    events_get_passphrase [OF no_passphrase(4)]
  show ?thesis by auto
next
  case (signs a hevs ws sevs wallet acct np pevs p' t)
  from assms signs(6) have "WalletDerive u p pin \<in> set hevs \<or> WalletDerive u p pin \<in> set sevs
      \<or> WalletDerive u p pin \<in> set pevs"
    by (auto split: option.splits)
  with events_getWallets [OF signs(2)] events_scan [OF signs(3)]
    events_get_passphrase [OF signs(4)]
  show ?thesis by auto
qed

lemma derive_message:
  assumes "WalletDerive u p pin \<in> set (fst (message W c))"
  shows "\<exists>i\<le>3. p = pathstr i"
proof (cases W c rule: message_cases)
  case (arguments e)
  with assms show ?thesis by simp
next
  case (scan_failed f d hevs ws sevs e)
  with assms events_getWallets [OF scan_failed(2)] events_scan [OF scan_failed(3)]
  show ?thesis by auto
next
  case (not_found f d hevs ws sevs)
  with assms events_getWallets [OF not_found(2)] events_scan [OF not_found(3)]
  show ?thesis by auto
next
  case (no_passphrase f d hevs ws sevs wallet acct np pevs e)
  with assms events_getWallets [OF no_passphrase(2)] events_scan [OF no_passphrase(3)]
    events_get_passphrase [OF no_passphrase(4)]
  show ?thesis by auto
next
  case (signs f d hevs ws sevs wallet acct np pevs p')
  from assms signs(5) have "WalletDerive u p pin \<in> set hevs \<or> WalletDerive u p pin \<in> set sevs
      \<or> WalletDerive u p pin \<in> set pevs"
    by (auto split: option.splits if_splits)
  with events_getWallets [OF signs(2)] events_scan [OF signs(3)]
    events_get_passphrase [OF signs(4)]
  show ?thesis by auto
qed

lemma scan_ledger_events:
  assumes "Scheme (URL x) = ''ledger''"
  shows "\<exists>rest. fst (scan (x # xs) f) = WalletOpen (URL x) '''' # fst (scan_derive x f 0) @ rest"
proof -
  have nks: "Scheme (URL x) \<noteq> ''keystore''" using assms by simp
  show ?thesis using assms nks
    by (cases "scan_derive x f 0") (auto split: sum.splits option.splits prod.splits)
qed

lemma list_ledger_events:
  assumes "Scheme (URL x) = ''ledger''"
  shows "\<exists>rest. fst (list_wallets W (x # xs)) =
           WalletOpen (URL x) '''' # fst (list_derive W x 0) @ rest"
proof -
  have nks: "Scheme (URL x) \<noteq> ''keystore''" using assms by simp
  show ?thesis using assms nks
    by (cases "list_derive W x 0") (auto split: sum.splits prod.splits)
qed

text \<open>
  Claim C3, as amended. On a wallet of scheme \<^verbatim>\<open>ledger\<close> the search opens the wallet and
  derives the paths \<^verbatim>\<open>m/44'/60'/0'/0\<close>, \<^verbatim>\<open>m/44'/60'/0'/1\<close>, \<^verbatim>\<open>m/44'/60'/0'/2\<close>, \<^verbatim>\<open>m/44'/60'/0'/3\<close>
  in that order, and stops after the first path whose derivation fails or whose address is
  the requested one; the listing derives them in that order and stops after the first
  failure. So the paths derived on the wallet are the first \<open>n + 1\<close> of the four, and all
  four when none of the first three stops the loop. No run of \<^verbatim>\<open>transaction\<close>, \<^verbatim>\<open>message\<close> or
  \<^verbatim>\<open>list-accounts\<close> derives any other path.
\<close>

theorem derivation_paths:
  "map pathstr [0..<4] =
     [''m/44'/60'/0'/0'', ''m/44'/60'/0'/1'', ''m/44'/60'/0'/2'', ''m/44'/60'/0'/3'']
   \<and> (\<exists>n. n \<le> 3 \<and> derived (fst (scan_derive x f 0)) = map pathstr [0..<Suc n]
          \<and> (\<forall>i<n. \<exists>y. Derive x (pathstr i) True = Some y \<and> Address y \<noteq> f)
          \<and> (n < 3 \<longrightarrow>
               (case Derive x (pathstr n) True of None \<Rightarrow> True | Some y \<Rightarrow> Address y = f)))
   \<and> (\<exists>n. n \<le> 3 \<and> derived (fst (list_derive W x 0)) = map pathstr [0..<Suc n]
          \<and> (\<forall>i<n. Derive x (pathstr i) False \<noteq> None)
          \<and> (n < 3 \<longrightarrow> Derive x (pathstr n) False = None))
   \<and> (Scheme (URL x) = ''ledger'' \<longrightarrow>
        (\<exists>rest. fst (scan (x # xs) f) =
                  WalletOpen (URL x) '''' # fst (scan_derive x f 0) @ rest)
      \<and> (\<exists>rest. fst (list_wallets W (x # xs)) =
                  WalletOpen (URL x) '''' # fst (list_derive W x 0) @ rest))
   \<and> (\<forall>u p pin.
         WalletDerive u p pin
           \<in> set (fst (transaction W c)) \<union> set (fst (message W c))
             \<union> set (fst (list_accounts W c)) \<longrightarrow>
         p \<in> {''m/44'/60'/0'/0'', ''m/44'/60'/0'/1'', ''m/44'/60'/0'/2'',
              ''m/44'/60'/0'/3''})"
proof (intro conjI)
  have "[0..<4] = [0, 1, 2, 3 :: nat]"
    by (simp add: upt_rec)
  then show "map pathstr [0..<4] =
     [''m/44'/60'/0'/0'', ''m/44'/60'/0'/1'', ''m/44'/60'/0'/2'', ''m/44'/60'/0'/3'']"
    by (simp add: pathstr_values pathstr_Suc_values)
next
  from scan_derive_paths [of 0 x f]
  show "\<exists>n. n \<le> 3 \<and> derived (fst (scan_derive x f 0)) = map pathstr [0..<Suc n]
          \<and> (\<forall>i<n. \<exists>y. Derive x (pathstr i) True = Some y \<and> Address y \<noteq> f)
          \<and> (n < 3 \<longrightarrow>
               (case Derive x (pathstr n) True of None \<Rightarrow> True | Some y \<Rightarrow> Address y = f))"
    by simp
next
  from list_derive_paths [of 0 W x]
  show "\<exists>n. n \<le> 3 \<and> derived (fst (list_derive W x 0)) = map pathstr [0..<Suc n]
          \<and> (\<forall>i<n. Derive x (pathstr i) False \<noteq> None)
          \<and> (n < 3 \<longrightarrow> Derive x (pathstr n) False = None)"
    by simp
next
  show "Scheme (URL x) = ''ledger'' \<longrightarrow>
        (\<exists>rest. fst (scan (x # xs) f) =
                  WalletOpen (URL x) '''' # fst (scan_derive x f 0) @ rest)
      \<and> (\<exists>rest. fst (list_wallets W (x # xs)) =
                  WalletOpen (URL x) '''' # fst (list_derive W x 0) @ rest)"
    using scan_ledger_events [of x xs f] list_ledger_events [of x W xs] by blast
next
  show "\<forall>u p pin.
         WalletDerive u p pin
           \<in> set (fst (transaction W c)) \<union> set (fst (message W c))
             \<union> set (fst (list_accounts W c)) \<longrightarrow>
         p \<in> {''m/44'/60'/0'/0'', ''m/44'/60'/0'/1'', ''m/44'/60'/0'/2'',
              ''m/44'/60'/0'/3''}"
  proof (intro allI impI)
    fix u p pin
    assume "WalletDerive u p pin
           \<in> set (fst (transaction W c)) \<union> set (fst (message W c))
             \<union> set (fst (list_accounts W c))"
    then have "\<exists>i\<le>3. p = pathstr i"
      using derive_transaction [of u p pin W c] derive_message [of u p pin W c]
        derive_list_accounts [of u p pin W c] by blast
    then show "p \<in> {''m/44'/60'/0'/0'', ''m/44'/60'/0'/1'', ''m/44'/60'/0'/2'',
              ''m/44'/60'/0'/3''}"
      using four_paths by blast
  qed
qed

text \<open>
  The Ledger of the example world: the search for the address of its first path stops
  there, and the search for an address that it does not hold derives all four paths.
\<close>

theorem derivation_paths_witness:
  "Scheme (URL ledger_wallet) = ''ledger''
   \<and> derived (fst (scan_derive ledger_wallet addr_b 0)) = [''m/44'/60'/0'/0'']
   \<and> derived (fst (scan_derive ledger_wallet addr_c 0)) =
       [''m/44'/60'/0'/0'', ''m/44'/60'/0'/1'', ''m/44'/60'/0'/2'', ''m/44'/60'/0'/3'']
   \<and> (\<exists>n. n \<le> 3 \<and> derived (fst (scan_derive ledger_wallet addr_c 0)) = map pathstr [0..<Suc n]
          \<and> (\<forall>i<n. \<exists>y. Derive ledger_wallet (pathstr i) True = Some y \<and> Address y \<noteq> addr_c)
          \<and> (n < 3 \<longrightarrow>
               (case Derive ledger_wallet (pathstr n) True of None \<Rightarrow> True
                | Some y \<Rightarrow> Address y = addr_c)))
   \<and> (\<exists>rest. fst (scan [ledger_wallet] addr_c) =
                WalletOpen (URL ledger_wallet) '''' # fst (scan_derive ledger_wallet addr_c 0) @ rest)"
proof -
  have led: "Scheme (URL ledger_wallet) = ''ledger''"
    by (simp add: ledger_wallet_def ledger_url_def)
  have one: "derived (fst (scan_derive ledger_wallet addr_b 0)) = [''m/44'/60'/0'/0'']"
    by (simp add: demo_defs scan_derive.simps pathstr_values)
  have four: "derived (fst (scan_derive ledger_wallet addr_c 0)) =
       [''m/44'/60'/0'/0'', ''m/44'/60'/0'/1'', ''m/44'/60'/0'/2'', ''m/44'/60'/0'/3'']"
    by (simp add: demo_defs scan_derive.simps pathstr_values pathstr_Suc_values)
  note T = derivation_paths [of ledger_wallet addr_c demo_world "[]" "tx_flags ''0xbb''"]
  note search = T [THEN conjunct2, THEN conjunct1]
  from T [THEN conjunct2, THEN conjunct2, THEN conjunct2, THEN conjunct1] led
  have opened: "\<exists>rest. fst (scan [ledger_wallet] addr_c) =
                WalletOpen (URL ledger_wallet) '''' # fst (scan_derive ledger_wallet addr_c 0) @ rest"
    by blast
  from led one four search opened show ?thesis
    by (intro conjI)
qed

text \<open>
  The claim as it is written fails when a path matches before the last one: the run of
  \<^verbatim>\<open>transaction\<close> for the address of the first path of the Ledger derives that path only.
\<close>

theorem derivation_paths_counterexample:
  "HexToAddress demo_world (c_String (tx_flags ''0xbb'') ''from'') = addr_b
   \<and> NewLedgerHub demo_world = Some [ledger_wallet]
   \<and> Derive ledger_wallet ''m/44'/60'/0'/0'' True = Some acct_b
   \<and> Address acct_b = addr_b
   \<and> derived (fst (transaction demo_world (tx_flags ''0xbb''))) = [''m/44'/60'/0'/0'']
   \<and> derived (fst (transaction demo_world (tx_flags ''0xbb''))) \<noteq>
       [''m/44'/60'/0'/0'', ''m/44'/60'/0'/1'', ''m/44'/60'/0'/2'', ''m/44'/60'/0'/3'']"
proof -
  have run: "transaction demo_world (tx_flags ''0xbb'') =
     ([WalletOpen ledger_url '''', WalletDerive ledger_url ''m/44'/60'/0'/0'' True,
       Stderr (''Waiting for hardware wallet confirmation...'' @ [CHR 0x0A]),
       SignTx ledger_url acct_b '''' (NewTransaction 7 addr_b 1 1 1 [1, 255]) 1,
       Stdout (''0x01ff'' @ [CHR 0x0A])], Inr ())"
    by (simp add: run_defs demo_defs NewTransaction_def Encode_def hex_byte_def hex_digit_def)
  show ?thesis
    unfolding run by (simp add: demo_defs)
qed

subsection \<open>An account in the keystore\<close>

text \<open>
  Claim C4. When a passphrase is needed, it is acquired in one of two ways: when
  \<^verbatim>\<open>--passphrase-file\<close> is not empty, that file is read, the run ends with the exit error
  \<^verbatim>\<open>failed to read passphrase file\<close> if the read fails, and the passphrase is the content
  of the file without one newline at its end; otherwise the prompt is printed on standard
  error and the passphrase is read from the terminal without echo (the run ends with the
  exit error \<^verbatim>\<open>failed to read passphrase\<close> if that fails). When the scan has found the
  account on a keystore wallet, the run of \<^verbatim>\<open>transaction\<close> or \<^verbatim>\<open>message\<close> goes on with
  exactly this acquisition, and the passphrase it yields is the one handed to the signer of
  that wallet.
\<close>

theorem keystore_passphrase:
  fixes wallet :: wallet
  assumes "getWallets W (c_String c ''key-store'') = (hevs, Inr ws)"
    and "Scheme (URL wallet) = ''keystore''"
  shows
    "get_passphrase W c True =
       (if c_String c ''passphrase-file'' \<noteq> '''' then
          ([FileRead (c_String c ''passphrase-file'')],
           case ReadFile W (c_String c ''passphrase-file'') of
             None \<Rightarrow> Inl (ExitError ''ethsign: failed to read passphrase file'' 1)
           | Some passphraseFile \<Rightarrow> Inr (TrimSuffix passphraseFile [CHR 0x0A]))
        else
          ([Stderr ''Ethereum account passphrase (not echoed): '', PasswordRead],
           case ReadPassword W of
             None \<Rightarrow> Inl (ExitError ''ethsign: failed to read passphrase'' 1)
           | Some bytes \<Rightarrow> Inr bytes))
   \<and> (tx_arguments W c = ([], Inr a)
        \<and> scan ws (arg_from a) = (sevs, Inr (Some (wallet, acct, np))) \<longrightarrow>
      transaction W c =
        (case get_passphrase W c True of
           (pevs, Inl e) \<Rightarrow> (hevs @ sevs @ pevs, Inl e)
         | (pevs, Inr p) \<Rightarrow>
             (hevs @ sevs @ pevs @
                [SignTx (URL wallet) acct p
                   (if arg_create a
                    then NewContractCreation (arg_nonce a) (arg_value a) (arg_gasLimit a)
                           (arg_gasPrice a) (arg_data a)
                    else NewTransaction (arg_nonce a) (arg_to a) (arg_value a)
                           (arg_gasLimit a) (arg_gasPrice a) (arg_data a))
                   (arg_chainID a)]
                @ (case SignTxWithPassphrase wallet acct p
                          (if arg_create a
                           then NewContractCreation (arg_nonce a) (arg_value a)
                                  (arg_gasLimit a) (arg_gasPrice a) (arg_data a)
                           else NewTransaction (arg_nonce a) (arg_to a) (arg_value a)
                                  (arg_gasLimit a) (arg_gasPrice a) (arg_data a))
                          (arg_chainID a) of
                     None \<Rightarrow> []
                   | Some signedTx \<Rightarrow>
                       [Stdout (Encode (EncodeToBytes W signedTx) @ [CHR 0x0A])]),
              case SignTxWithPassphrase wallet acct p
                     (if arg_create a
                      then NewContractCreation (arg_nonce a) (arg_value a)
                             (arg_gasLimit a) (arg_gasPrice a) (arg_data a)
                      else NewTransaction (arg_nonce a) (arg_to a) (arg_value a)
                             (arg_gasLimit a) (arg_gasPrice a) (arg_data a))
                     (arg_chainID a) of
                None \<Rightarrow> Inl (ExitError ''ethsign: failed to sign tx'' 1)
              | Some signedTx \<Rightarrow> Inr ())))
   \<and> (msg_arguments W c = ([], Inr (f, d))
        \<and> scan ws f = (sevs, Inr (Some (wallet, acct, np))) \<longrightarrow>
      message W c =
        (case get_passphrase W c True of
           (pevs, Inl e) \<Rightarrow> (hevs @ sevs @ pevs, Inl e)
         | (pevs, Inr p) \<Rightarrow>
             (hevs @ sevs @ pevs @
                [SignHash (URL wallet) acct p (signHash W d)]
                @ (case SignHashWithPassphrase wallet acct p (signHash W d) of
                     None \<Rightarrow> []
                   | Some sig \<Rightarrow>
                       if length sig \<le> 64 then []
                       else [Stdout (Encode (sig[64 := sig ! 64 + 27]) @ [CHR 0x0A])]),
              case SignHashWithPassphrase wallet acct p (signHash W d) of
                None \<Rightarrow> Inl (ExitError ''ethsign: failed to sign tx'' 1)
              | Some sig \<Rightarrow> if length sig \<le> 64 then Inl Panic else Inr ())))"
proof (intro conjI impI; (elim conjE)?)
  show "get_passphrase W c True =
       (if c_String c ''passphrase-file'' \<noteq> '''' then
          ([FileRead (c_String c ''passphrase-file'')],
           case ReadFile W (c_String c ''passphrase-file'') of
             None \<Rightarrow> Inl (ExitError ''ethsign: failed to read passphrase file'' 1)
           | Some passphraseFile \<Rightarrow> Inr (TrimSuffix passphraseFile [CHR 0x0A]))
        else
          ([Stderr ''Ethereum account passphrase (not echoed): '', PasswordRead],
           case ReadPassword W of
             None \<Rightarrow> Inl (ExitError ''ethsign: failed to read passphrase'' 1)
           | Some bytes \<Rightarrow> Inr bytes))"
    by (rule get_passphrase_needed)
next
  assume A: "tx_arguments W c = ([], Inr a)"
    and S: "scan ws (arg_from a) = (sevs, Inr (Some (wallet, acct, np)))"
  from scan_needPassphrase [OF S] assms(2) have np: "np = True" by simp
  from transaction_located [OF A assms(1) S refl, unfolded np]
  show "transaction W c =
        (case get_passphrase W c True of
           (pevs, Inl e) \<Rightarrow> (hevs @ sevs @ pevs, Inl e)
         | (pevs, Inr p) \<Rightarrow>
             (hevs @ sevs @ pevs @
                [SignTx (URL wallet) acct p
                   (if arg_create a
                    then NewContractCreation (arg_nonce a) (arg_value a) (arg_gasLimit a)
                           (arg_gasPrice a) (arg_data a)
                    else NewTransaction (arg_nonce a) (arg_to a) (arg_value a)
                           (arg_gasLimit a) (arg_gasPrice a) (arg_data a))
                   (arg_chainID a)]
                @ (case SignTxWithPassphrase wallet acct p
                          (if arg_create a
                           then NewContractCreation (arg_nonce a) (arg_value a)
                                  (arg_gasLimit a) (arg_gasPrice a) (arg_data a)
                           else NewTransaction (arg_nonce a) (arg_to a) (arg_value a)
                                  (arg_gasLimit a) (arg_gasPrice a) (arg_data a))
                          (arg_chainID a) of
                     None \<Rightarrow> []
                   | Some signedTx \<Rightarrow>
                       [Stdout (Encode (EncodeToBytes W signedTx) @ [CHR 0x0A])]),
              case SignTxWithPassphrase wallet acct p
                     (if arg_create a
                      then NewContractCreation (arg_nonce a) (arg_value a)
                             (arg_gasLimit a) (arg_gasPrice a) (arg_data a)
                      else NewTransaction (arg_nonce a) (arg_to a) (arg_value a)
                             (arg_gasLimit a) (arg_gasPrice a) (arg_data a))
                     (arg_chainID a) of
                None \<Rightarrow> Inl (ExitError ''ethsign: failed to sign tx'' 1)
              | Some signedTx \<Rightarrow> Inr ()))"
    by (simp split: prod.splits sum.splits)
next
  assume A: "msg_arguments W c = ([], Inr (f, d))"
    and S: "scan ws f = (sevs, Inr (Some (wallet, acct, np)))"
  from scan_needPassphrase [OF S] assms(2) have np: "np = True" by simp
  from message_located [OF A assms(1) S, unfolded np]
  show "message W c =
        (case get_passphrase W c True of
           (pevs, Inl e) \<Rightarrow> (hevs @ sevs @ pevs, Inl e)
         | (pevs, Inr p) \<Rightarrow>
             (hevs @ sevs @ pevs @
                [SignHash (URL wallet) acct p (signHash W d)]
                @ (case SignHashWithPassphrase wallet acct p (signHash W d) of
                     None \<Rightarrow> []
                   | Some sig \<Rightarrow>
                       if length sig \<le> 64 then []
                       else [Stdout (Encode (sig[64 := sig ! 64 + 27]) @ [CHR 0x0A])]),
              case SignHashWithPassphrase wallet acct p (signHash W d) of
                None \<Rightarrow> Inl (ExitError ''ethsign: failed to sign tx'' 1)
              | Some sig \<Rightarrow> if length sig \<le> 64 then Inl Panic else Inr ()))"
    by (simp split: prod.splits sum.splits)
qed

text \<open>
  The keystore account of the example world: \<^verbatim>\<open>transaction\<close> with a passphrase file that
  ends in a newline, and \<^verbatim>\<open>message\<close> with the passphrase from the terminal.
\<close>

theorem keystore_passphrase_witness:
  "getWallets demo_world (c_String (msg_flags ''0xaa'') ''key-store'')
     = ([], Inr [ks_wallet, ledger_wallet, trezor_wallet])
   \<and> Scheme (URL ks_wallet) = ''keystore''
   \<and> scan [ks_wallet, ledger_wallet, trezor_wallet] addr_a =
       ([], Inr (Some (ks_wallet, acct_a, True)))
   \<and> ReadFile demo_world ''/pw'' = Some (''secret'' @ [CHR 0x0A])
   \<and> transaction demo_world (with_flag (tx_flags ''0xaa'') ''passphrase-file'' ''/pw'') =
       ([FileRead ''/pw'',
         SignTx ks_url acct_a ''secret'' (NewTransaction 7 addr_b 1 1 1 [1, 255]) 1,
         Stdout (''0x01ff'' @ [CHR 0x0A])], Inr ())
   \<and> message demo_world (msg_flags ''0xaa'') =
       ([Stderr ''Ethereum account passphrase (not echoed): '', PasswordRead,
         SignHash ks_url acct_a ''secret'' (replicate 32 0),
         Stdout (Encode (sig65[64 := 28]) @ [CHR 0x0A])], Inr ())"
proof -
  have ks: "Scheme (URL ks_wallet) = ''keystore''"
    by (simp add: ks_wallet_def ks_url_def)
  have rf: "ReadFile demo_world ''/pw'' = Some (''secret'' @ [CHR 0x0A])"
    by (simp add: demo_world_def)
  have last: "sig65 ! 64 = 1"
    by (simp add: sig65_def nth_append)
  have sign: "SignTxWithPassphrase ks_wallet acct_a ''secret''
                (NewTransaction 7 addr_b 1 1 1 [1, 255]) 1
                = Some ((NewTransaction 7 addr_b 1 1 1 [1, 255])\<lparr>V := 37, R := 1, S := 1\<rparr>)"
    "SignHashWithPassphrase ks_wallet acct_a ''secret'' (replicate 32 0) = Some sig65"
    "URL ks_wallet = ks_url"
    by (simp_all add: ks_wallet_def)
  have out: "Encode (EncodeToBytes demo_world
               ((NewTransaction 7 addr_b 1 1 1 [1, 255])\<lparr>V := 37, R := 1, S := 1\<rparr>)) = ''0x01ff''"
    by (simp add: demo_world_def NewTransaction_def Encode_def hex_byte_def hex_digit_def)
  have hash: "signHash demo_world [1, 255] = replicate 32 0"
    by (simp add: signHash_def demo_world_def)
  have pf: "c_String (with_flag (tx_flags ''0xaa'') ''passphrase-file'' ''/pw'') ''passphrase-file''
              = ''/pw''"
    "c_String (msg_flags ''0xaa'') ''passphrase-file'' = ''''"
    by (simp_all add: with_flag_def msg_flags_def flags_def)
  have pw: "ReadPassword demo_world = Some ''secret''"
    by (simp add: demo_world_def)
  note T = keystore_passphrase [where c = "with_flag (tx_flags ''0xaa'') ''passphrase-file'' ''/pw''"
      and sevs = "[]" and acct = acct_a and np = True
      and a = "\<lparr>arg_create = False, arg_to = addr_b, arg_from = addr_a, arg_nonce = 7,
                arg_gasPrice = 1, arg_gasLimit = 1, arg_value = 1, arg_chainID = 1,
                arg_data = [1, 255]\<rparr>", OF demo_getWallets ks]
  from T [THEN conjunct2, THEN conjunct1] T [THEN conjunct1] demo_tx_arguments(2) demo_scan_a
  have t: "transaction demo_world (with_flag (tx_flags ''0xaa'') ''passphrase-file'' ''/pw'') =
       ([FileRead ''/pw'',
         SignTx ks_url acct_a ''secret'' (NewTransaction 7 addr_b 1 1 1 [1, 255]) 1,
         Stdout (''0x01ff'' @ [CHR 0x0A])], Inr ())"
    by (simp add: sign out pf rf TrimSuffix_def HasSuffix_def)
  note M = keystore_passphrase [where c = "msg_flags ''0xaa''"
      and sevs = "[]" and acct = acct_a and np = True and f = addr_a and d = "[1, 255]",
      OF demo_getWallets ks]
  from M [THEN conjunct2, THEN conjunct2] M [THEN conjunct1] demo_msg_arguments(1) demo_scan_a
  have m: "message demo_world (msg_flags ''0xaa'') =
       ([Stderr ''Ethereum account passphrase (not echoed): '', PasswordRead,
         SignHash ks_url acct_a ''secret'' (replicate 32 0),
         Stdout (Encode (sig65[64 := 28]) @ [CHR 0x0A])], Inr ())"
    by (simp add: sign hash length_sig65 last pf pw)
  from demo_getWallets ks demo_scan_a rf t m show ?thesis by simp
qed

subsection \<open>An account on a hardware wallet\<close>

text \<open>
  Claim C7. When the scan has found the account on a wallet that is not a keystore wallet,
  the run of \<^verbatim>\<open>transaction\<close> or \<^verbatim>\<open>message\<close> goes on with the notice
  \<^verbatim>\<open>Waiting for hardware wallet confirmation...\<close> on standard error and then calls the signer
  of that wallet with the empty passphrase. In the whole run no passphrase file is read,
  no password is read from the terminal and the prompt for one is not printed.
\<close>

theorem hardware_wallet_no_passphrase:
  fixes wallet :: wallet
  assumes "getWallets W (c_String c ''key-store'') = (hevs, Inr ws)"
    and "Scheme (URL wallet) \<noteq> ''keystore''"
  shows
    "(tx_arguments W c = ([], Inr a)
        \<and> scan ws (arg_from a) = (sevs, Inr (Some (wallet, acct, np))) \<longrightarrow>
      transaction W c =
        (hevs @ sevs @
           [Stderr (''Waiting for hardware wallet confirmation...'' @ [CHR 0x0A]),
            SignTx (URL wallet) acct ''''
              (if arg_create a
               then NewContractCreation (arg_nonce a) (arg_value a) (arg_gasLimit a)
                      (arg_gasPrice a) (arg_data a)
               else NewTransaction (arg_nonce a) (arg_to a) (arg_value a) (arg_gasLimit a)
                      (arg_gasPrice a) (arg_data a))
              (arg_chainID a)]
           @ (case SignTxWithPassphrase wallet acct ''''
                     (if arg_create a
                      then NewContractCreation (arg_nonce a) (arg_value a) (arg_gasLimit a)
                             (arg_gasPrice a) (arg_data a)
                      else NewTransaction (arg_nonce a) (arg_to a) (arg_value a)
                             (arg_gasLimit a) (arg_gasPrice a) (arg_data a))
                     (arg_chainID a) of
                None \<Rightarrow> []
              | Some signedTx \<Rightarrow> [Stdout (Encode (EncodeToBytes W signedTx) @ [CHR 0x0A])]),
         case SignTxWithPassphrase wallet acct ''''
                (if arg_create a
                 then NewContractCreation (arg_nonce a) (arg_value a) (arg_gasLimit a)
                        (arg_gasPrice a) (arg_data a)
                 else NewTransaction (arg_nonce a) (arg_to a) (arg_value a)
                        (arg_gasLimit a) (arg_gasPrice a) (arg_data a))
                (arg_chainID a) of
           None \<Rightarrow> Inl (ExitError ''ethsign: failed to sign tx'' 1)
         | Some signedTx \<Rightarrow> Inr ())
      \<and> (\<forall>e\<in>set (fst (transaction W c)).
            \<not> is_passphrase_read e
            \<and> e \<noteq> Stderr ''Ethereum account passphrase (not echoed): ''))
   \<and> (msg_arguments W c = ([], Inr (f, d))
        \<and> scan ws f = (sevs, Inr (Some (wallet, acct, np))) \<longrightarrow>
      message W c =
        (hevs @ sevs @
           [Stderr (''Waiting for hardware wallet confirmation...'' @ [CHR 0x0A]),
            SignHash (URL wallet) acct '''' (signHash W d)]
           @ (case SignHashWithPassphrase wallet acct '''' (signHash W d) of
                None \<Rightarrow> []
              | Some sig \<Rightarrow>
                  if length sig \<le> 64 then []
                  else [Stdout (Encode (sig[64 := sig ! 64 + 27]) @ [CHR 0x0A])]),
         case SignHashWithPassphrase wallet acct '''' (signHash W d) of
           None \<Rightarrow> Inl (ExitError ''ethsign: failed to sign tx'' 1)
         | Some sig \<Rightarrow> if length sig \<le> 64 then Inl Panic else Inr ())
      \<and> (\<forall>e\<in>set (fst (message W c)).
            \<not> is_passphrase_read e
            \<and> e \<noteq> Stderr ''Ethereum account passphrase (not echoed): ''))"
proof (intro conjI impI; elim conjE)
  assume A: "tx_arguments W c = ([], Inr a)"
    and S: "scan ws (arg_from a) = (sevs, Inr (Some (wallet, acct, np)))"
  from scan_needPassphrase [OF S] assms(2) have np: "np = False" by simp
  note run = transaction_located [OF A assms(1) S refl, unfolded np get_passphrase_hardware]
  from run show "transaction W c =
        (hevs @ sevs @
           [Stderr (''Waiting for hardware wallet confirmation...'' @ [CHR 0x0A]),
            SignTx (URL wallet) acct ''''
              (if arg_create a
               then NewContractCreation (arg_nonce a) (arg_value a) (arg_gasLimit a)
                      (arg_gasPrice a) (arg_data a)
               else NewTransaction (arg_nonce a) (arg_to a) (arg_value a) (arg_gasLimit a)
                      (arg_gasPrice a) (arg_data a))
              (arg_chainID a)]
           @ (case SignTxWithPassphrase wallet acct ''''
                     (if arg_create a
                      then NewContractCreation (arg_nonce a) (arg_value a) (arg_gasLimit a)
                             (arg_gasPrice a) (arg_data a)
                      else NewTransaction (arg_nonce a) (arg_to a) (arg_value a)
                             (arg_gasLimit a) (arg_gasPrice a) (arg_data a))
                     (arg_chainID a) of
                None \<Rightarrow> []
              | Some signedTx \<Rightarrow> [Stdout (Encode (EncodeToBytes W signedTx) @ [CHR 0x0A])]),
         case SignTxWithPassphrase wallet acct ''''
                (if arg_create a
                 then NewContractCreation (arg_nonce a) (arg_value a) (arg_gasLimit a)
                        (arg_gasPrice a) (arg_data a)
                 else NewTransaction (arg_nonce a) (arg_to a) (arg_value a)
                        (arg_gasLimit a) (arg_gasPrice a) (arg_data a))
                (arg_chainID a) of
           None \<Rightarrow> Inl (ExitError ''ethsign: failed to sign tx'' 1)
         | Some signedTx \<Rightarrow> Inr ())"
    by simp
  show "\<forall>e\<in>set (fst (transaction W c)).
            \<not> is_passphrase_read e
            \<and> e \<noteq> Stderr ''Ethereum account passphrase (not echoed): ''"
    unfolding run using no_read_getWallets [OF assms(1)] no_read_scan [OF S]
    by (auto split: option.splits)
next
  assume A: "msg_arguments W c = ([], Inr (f, d))"
    and S: "scan ws f = (sevs, Inr (Some (wallet, acct, np)))"
  from scan_needPassphrase [OF S] assms(2) have np: "np = False" by simp
  note run = message_located [OF A assms(1) S, unfolded np get_passphrase_hardware]
  from run show "message W c =
        (hevs @ sevs @
           [Stderr (''Waiting for hardware wallet confirmation...'' @ [CHR 0x0A]),
            SignHash (URL wallet) acct '''' (signHash W d)]
           @ (case SignHashWithPassphrase wallet acct '''' (signHash W d) of
                None \<Rightarrow> []
              | Some sig \<Rightarrow>
                  if length sig \<le> 64 then []
                  else [Stdout (Encode (sig[64 := sig ! 64 + 27]) @ [CHR 0x0A])]),
         case SignHashWithPassphrase wallet acct '''' (signHash W d) of
           None \<Rightarrow> Inl (ExitError ''ethsign: failed to sign tx'' 1)
         | Some sig \<Rightarrow> if length sig \<le> 64 then Inl Panic else Inr ())"
    by simp
  show "\<forall>e\<in>set (fst (message W c)).
            \<not> is_passphrase_read e
            \<and> e \<noteq> Stderr ''Ethereum account passphrase (not echoed): ''"
    unfolding run using no_read_getWallets [OF assms(1)] no_read_scan [OF S]
    by (auto split: option.splits)
qed

text \<open>The account on the Ledger of the example world, for both actions.\<close>

theorem hardware_wallet_no_passphrase_witness:
  "getWallets demo_world (c_String (tx_flags ''0xbb'') ''key-store'')
     = ([], Inr [ks_wallet, ledger_wallet, trezor_wallet])
   \<and> Scheme (URL ledger_wallet) \<noteq> ''keystore''
   \<and> scan [ks_wallet, ledger_wallet, trezor_wallet] addr_b =
       ([WalletOpen ledger_url '''', WalletDerive ledger_url ''m/44'/60'/0'/0'' True],
        Inr (Some (ledger_wallet, acct_b, False)))
   \<and> transaction demo_world (tx_flags ''0xbb'') =
       ([WalletOpen ledger_url '''', WalletDerive ledger_url ''m/44'/60'/0'/0'' True,
         Stderr (''Waiting for hardware wallet confirmation...'' @ [CHR 0x0A]),
         SignTx ledger_url acct_b '''' (NewTransaction 7 addr_b 1 1 1 [1, 255]) 1,
         Stdout (''0x01ff'' @ [CHR 0x0A])], Inr ())
   \<and> message demo_world (msg_flags ''0xbb'') =
       ([WalletOpen ledger_url '''', WalletDerive ledger_url ''m/44'/60'/0'/0'' True,
         Stderr (''Waiting for hardware wallet confirmation...'' @ [CHR 0x0A]),
         SignHash ledger_url acct_b '''' (replicate 32 0),
         Stdout (Encode (sig65[64 := 28]) @ [CHR 0x0A])], Inr ())"
proof -
  have hw: "Scheme (URL ledger_wallet) \<noteq> ''keystore''"
    by (simp add: ledger_wallet_def ledger_url_def)
  have last: "sig65 ! 64 = 1"
    by (simp add: sig65_def nth_append)
  have sign: "SignTxWithPassphrase ledger_wallet acct_b '''' (NewTransaction 7 addr_b 1 1 1 [1, 255]) 1
                = Some ((NewTransaction 7 addr_b 1 1 1 [1, 255])\<lparr>V := 38, R := 2, S := 2\<rparr>)"
    "SignHashWithPassphrase ledger_wallet acct_b '''' (replicate 32 0) = Some sig65"
    "URL ledger_wallet = ledger_url"
    by (simp_all add: ledger_wallet_def)
  have out: "Encode (EncodeToBytes demo_world
               ((NewTransaction 7 addr_b 1 1 1 [1, 255])\<lparr>V := 38, R := 2, S := 2\<rparr>)) = ''0x01ff''"
    by (simp add: demo_world_def NewTransaction_def Encode_def hex_byte_def hex_digit_def)
  have hash: "signHash demo_world [1, 255] = replicate 32 0"
    by (simp add: signHash_def demo_world_def)
  from hardware_wallet_no_passphrase [where c = "tx_flags ''0xbb''" and sevs = "[WalletOpen ledger_url '''',
        WalletDerive ledger_url ''m/44'/60'/0'/0'' True]" and acct = acct_b and np = False
      and a = "\<lparr>arg_create = False, arg_to = addr_b, arg_from = addr_b, arg_nonce = 7,
                arg_gasPrice = 1, arg_gasLimit = 1, arg_value = 1, arg_chainID = 1,
                arg_data = [1, 255]\<rparr>", OF demo_getWallets hw, THEN conjunct1]
    demo_tx_arguments(3) demo_scan_b
  have t: "transaction demo_world (tx_flags ''0xbb'') =
       ([WalletOpen ledger_url '''', WalletDerive ledger_url ''m/44'/60'/0'/0'' True,
         Stderr (''Waiting for hardware wallet confirmation...'' @ [CHR 0x0A]),
         SignTx ledger_url acct_b '''' (NewTransaction 7 addr_b 1 1 1 [1, 255]) 1,
         Stdout (''0x01ff'' @ [CHR 0x0A])], Inr ())"
    by (simp add: sign out)
  from hardware_wallet_no_passphrase [where c = "msg_flags ''0xbb''" and sevs = "[WalletOpen ledger_url '''',
        WalletDerive ledger_url ''m/44'/60'/0'/0'' True]" and acct = acct_b and np = False
      and f = addr_b and d = "[1, 255]", OF demo_getWallets hw, THEN conjunct2]
    demo_msg_arguments(2) demo_scan_b
  have m: "message demo_world (msg_flags ''0xbb'') =
       ([WalletOpen ledger_url '''', WalletDerive ledger_url ''m/44'/60'/0'/0'' True,
         Stderr (''Waiting for hardware wallet confirmation...'' @ [CHR 0x0A]),
         SignHash ledger_url acct_b '''' (replicate 32 0),
         Stdout (Encode (sig65[64 := 28]) @ [CHR 0x0A])], Inr ())"
    by (simp add: sign hash length_sig65 last)
  from demo_getWallets hw demo_scan_b t m show ?thesis by simp
qed

subsection \<open>The output of \<^verbatim>\<open>transaction\<close>\<close>

text \<open>
  Claim C5. A run of \<^verbatim>\<open>transaction\<close> returns \<^verbatim>\<open>nil\<close> exactly when the flags pass the checks
  and parse, the scan of the wallets of the world finds an account, the passphrase is
  obtained, and the wallet that the scan found signs the transaction built from the flags
  for that account with that passphrase. The run then ends with this call of the signer and
  one line on standard output: the RLP encoding of the transaction that this wallet
  returned, in hexadecimal after the prefix \<^verbatim>\<open>0x\<close>. Nothing else is written to standard
  output.
\<close>

theorem transaction_prints_signed:
  "transaction W c = (evs, Inr ()) \<longleftrightarrow>
     (\<exists>a hevs ws sevs (wallet :: wallet) acct np pevs p signedTx.
        tx_arguments W c = ([], Inr a)
      \<and> getWallets W (c_String c ''key-store'') = (hevs, Inr ws)
      \<and> scan ws (arg_from a) = (sevs, Inr (Some (wallet, acct, np)))
      \<and> get_passphrase W c np = (pevs, Inr p)
      \<and> SignTxWithPassphrase wallet acct p
           (if arg_create a
            then NewContractCreation (arg_nonce a) (arg_value a) (arg_gasLimit a)
                   (arg_gasPrice a) (arg_data a)
            else NewTransaction (arg_nonce a) (arg_to a) (arg_value a) (arg_gasLimit a)
                   (arg_gasPrice a) (arg_data a))
           (arg_chainID a) = Some signedTx
      \<and> evs = hevs @ sevs @ pevs @
               [SignTx (URL wallet) acct p
                  (if arg_create a
                   then NewContractCreation (arg_nonce a) (arg_value a) (arg_gasLimit a)
                          (arg_gasPrice a) (arg_data a)
                   else NewTransaction (arg_nonce a) (arg_to a) (arg_value a) (arg_gasLimit a)
                          (arg_gasPrice a) (arg_data a))
                  (arg_chainID a),
                Stdout (Encode (EncodeToBytes W signedTx) @ [CHR 0x0A])]
      \<and> stdout evs = ''0x'' @ concat (map hex_byte (EncodeToBytes W signedTx)) @ [CHR 0x0A])"
  (is "?run \<longleftrightarrow> ?signed")
proof
  assume run: ?run
  show ?signed
  proof (cases W c rule: transaction_cases)
    case (arguments e)
    with run show ?thesis by simp
  next
    case (scan_failed a hevs ws sevs e)
    with run show ?thesis by simp
  next
    case (not_found a hevs ws sevs)
    with run show ?thesis by simp
  next
    case (no_passphrase a hevs ws sevs wallet acct np pevs e)
    with run show ?thesis by simp
  next
    case (signs a hevs ws sevs wallet acct np pevs p t)
    from signs(6) run obtain signedTx where
      s: "SignTxWithPassphrase wallet acct p t (arg_chainID a) = Some signedTx"
      by (auto split: option.splits)
    from signs(6) run s have
      evs: "evs = hevs @ sevs @ pevs @ [SignTx (URL wallet) acct p t (arg_chainID a),
                    Stdout (Encode (EncodeToBytes W signedTx) @ [CHR 0x0A])]"
      by simp
    have "stdout (hevs @ sevs @ pevs) = []"
      by (simp add: stdout_append stdout_getWallets [OF signs(2)] stdout_scan [OF signs(3)]
            stdout_get_passphrase [OF signs(4)])
    then have out:
      "stdout evs = ''0x'' @ concat (map hex_byte (EncodeToBytes W signedTx)) @ [CHR 0x0A]"
      unfolding evs by (simp add: stdout_append) (simp add: stdout_def Encode_def)
    show ?thesis
    proof (intro exI conjI)
      show "tx_arguments W c = ([], Inr a)" by (rule signs(1))
      show "getWallets W (c_String c ''key-store'') = (hevs, Inr ws)" by (rule signs(2))
      show "scan ws (arg_from a) = (sevs, Inr (Some (wallet, acct, np)))" by (rule signs(3))
      show "get_passphrase W c np = (pevs, Inr p)" by (rule signs(4))
      show "SignTxWithPassphrase wallet acct p
           (if arg_create a
            then NewContractCreation (arg_nonce a) (arg_value a) (arg_gasLimit a)
                   (arg_gasPrice a) (arg_data a)
            else NewTransaction (arg_nonce a) (arg_to a) (arg_value a) (arg_gasLimit a)
                   (arg_gasPrice a) (arg_data a))
           (arg_chainID a) = Some signedTx"
        using s unfolding signs(5) .
      show "evs = hevs @ sevs @ pevs @
               [SignTx (URL wallet) acct p
                  (if arg_create a
                   then NewContractCreation (arg_nonce a) (arg_value a) (arg_gasLimit a)
                          (arg_gasPrice a) (arg_data a)
                   else NewTransaction (arg_nonce a) (arg_to a) (arg_value a) (arg_gasLimit a)
                          (arg_gasPrice a) (arg_data a))
                  (arg_chainID a),
                Stdout (Encode (EncodeToBytes W signedTx) @ [CHR 0x0A])]"
        using evs unfolding signs(5) .
      show "stdout evs = ''0x'' @ concat (map hex_byte (EncodeToBytes W signedTx)) @ [CHR 0x0A]"
        by (rule out)
    qed
  qed
next
  assume ?signed
  then obtain a hevs ws sevs and wallet :: wallet and acct np pevs p signedTx where
    A: "tx_arguments W c = ([], Inr a)"
    and G: "getWallets W (c_String c ''key-store'') = (hevs, Inr ws)"
    and S: "scan ws (arg_from a) = (sevs, Inr (Some (wallet, acct, np)))"
    and P: "get_passphrase W c np = (pevs, Inr p)"
    and s: "SignTxWithPassphrase wallet acct p
           (if arg_create a
            then NewContractCreation (arg_nonce a) (arg_value a) (arg_gasLimit a)
                   (arg_gasPrice a) (arg_data a)
            else NewTransaction (arg_nonce a) (arg_to a) (arg_value a) (arg_gasLimit a)
                   (arg_gasPrice a) (arg_data a))
           (arg_chainID a) = Some signedTx"
    and evs: "evs = hevs @ sevs @ pevs @
               [SignTx (URL wallet) acct p
                  (if arg_create a
                   then NewContractCreation (arg_nonce a) (arg_value a) (arg_gasLimit a)
                          (arg_gasPrice a) (arg_data a)
                   else NewTransaction (arg_nonce a) (arg_to a) (arg_value a) (arg_gasLimit a)
                          (arg_gasPrice a) (arg_data a))
                  (arg_chainID a),
                Stdout (Encode (EncodeToBytes W signedTx) @ [CHR 0x0A])]"
    by blast
  from transaction_signs [OF A G S P refl] s evs show ?run by simp
qed

text \<open>The run for the account on the Ledger of the example world.\<close>

theorem transaction_prints_signed_witness:
  "transaction demo_world (tx_flags ''0xbb'') =
     ([WalletOpen ledger_url '''', WalletDerive ledger_url ''m/44'/60'/0'/0'' True,
       Stderr (''Waiting for hardware wallet confirmation...'' @ [CHR 0x0A]),
       SignTx ledger_url acct_b '''' (NewTransaction 7 addr_b 1 1 1 [1, 255]) 1,
       Stdout (''0x01ff'' @ [CHR 0x0A])], Inr ())
   \<and> (\<exists>a hevs ws sevs (wallet :: wallet) acct np pevs p signedTx.
        tx_arguments demo_world (tx_flags ''0xbb'') = ([], Inr a)
      \<and> getWallets demo_world (c_String (tx_flags ''0xbb'') ''key-store'') = (hevs, Inr ws)
      \<and> scan ws (arg_from a) = (sevs, Inr (Some (wallet, acct, np)))
      \<and> get_passphrase demo_world (tx_flags ''0xbb'') np = (pevs, Inr p)
      \<and> SignTxWithPassphrase wallet acct p
           (if arg_create a
            then NewContractCreation (arg_nonce a) (arg_value a) (arg_gasLimit a)
                   (arg_gasPrice a) (arg_data a)
            else NewTransaction (arg_nonce a) (arg_to a) (arg_value a) (arg_gasLimit a)
                   (arg_gasPrice a) (arg_data a))
           (arg_chainID a) = Some signedTx
      \<and> [WalletOpen ledger_url '''', WalletDerive ledger_url ''m/44'/60'/0'/0'' True,
          Stderr (''Waiting for hardware wallet confirmation...'' @ [CHR 0x0A]),
          SignTx ledger_url acct_b '''' (NewTransaction 7 addr_b 1 1 1 [1, 255]) 1,
          Stdout (''0x01ff'' @ [CHR 0x0A])]
          = hevs @ sevs @ pevs @
               [SignTx (URL wallet) acct p
                  (if arg_create a
                   then NewContractCreation (arg_nonce a) (arg_value a) (arg_gasLimit a)
                          (arg_gasPrice a) (arg_data a)
                   else NewTransaction (arg_nonce a) (arg_to a) (arg_value a) (arg_gasLimit a)
                          (arg_gasPrice a) (arg_data a))
                  (arg_chainID a),
                Stdout (Encode (EncodeToBytes demo_world signedTx) @ [CHR 0x0A])]
      \<and> stdout [WalletOpen ledger_url '''', WalletDerive ledger_url ''m/44'/60'/0'/0'' True,
            Stderr (''Waiting for hardware wallet confirmation...'' @ [CHR 0x0A]),
            SignTx ledger_url acct_b '''' (NewTransaction 7 addr_b 1 1 1 [1, 255]) 1,
            Stdout (''0x01ff'' @ [CHR 0x0A])]
          = ''0x'' @ concat (map hex_byte (EncodeToBytes demo_world signedTx)) @ [CHR 0x0A])"
proof -
  have run: "transaction demo_world (tx_flags ''0xbb'') =
     ([WalletOpen ledger_url '''', WalletDerive ledger_url ''m/44'/60'/0'/0'' True,
       Stderr (''Waiting for hardware wallet confirmation...'' @ [CHR 0x0A]),
       SignTx ledger_url acct_b '''' (NewTransaction 7 addr_b 1 1 1 [1, 255]) 1,
       Stdout (''0x01ff'' @ [CHR 0x0A])], Inr ())"
    by (simp add: run_defs demo_defs NewTransaction_def Encode_def hex_byte_def hex_digit_def)
  from run transaction_prints_signed [THEN iffD1, OF run] show ?thesis
    by (rule conjI)
qed

subsection \<open>The hash of a message\<close>

lemma message_SignHash:
  assumes "SignHash u a p h \<in> set (fst (message W c))"
  shows "\<exists>ea d. msg_arguments W c = (ea, Inr (HexToAddress W (c_String c ''from''), d))
              \<and> h = signHash W d"
proof -
  obtain ea r where m: "msg_arguments W c = (ea, r)" by (cases "msg_arguments W c")
  have ea: "ea = []" using events_msg_arguments [of W c] m by simp
  show ?thesis
  proof (cases r)
    case (Inl e)
    with m ea assms show ?thesis by (simp add: message_def bind_io_Inl)
  next
    case (Inr fd)
    obtain f d where fd: "fd = (f, d)" by (cases fd)
    note A = m [unfolded Inr fd]
    have f: "f = HexToAddress W (c_String c ''from'')" by (rule msg_arguments_Inr(3) [OF A])
    obtain hevs ws where G: "getWallets W (c_String c ''key-store'') = (hevs, Inr ws)"
      by (simp add: getWallets_eq)
    obtain sevs sr where S: "scan ws f = (sevs, sr)" by (cases "scan ws f")
    have no1: "SignHash u a p h \<notin> set hevs" using events_getWallets [OF G] by blast
    have no2: "SignHash u a p h \<notin> set sevs" using events_scan [OF S] by blast
    show ?thesis
    proof (cases sr)
      case (Inl e)
      with message_scan_failed [OF A G] S assms no1 no2 show ?thesis by simp
    next
      case (Inr found)
      show ?thesis
      proof (cases found)
        case None
        with message_not_found [OF A G] S Inr assms no1 no2 show ?thesis by simp
      next
        case (Some wan)
        obtain wallet acct np where wan: "wan = (wallet, acct, np)" by (cases wan)
        note S' = S [unfolded Inr Some wan]
        obtain pevs pr where P: "get_passphrase W c np = (pevs, pr)"
          by (cases "get_passphrase W c np")
        have no3: "SignHash u a p h \<notin> set pevs" using events_get_passphrase [OF P] by blast
        show ?thesis
        proof (cases pr)
          case (Inl e)
          with message_no_passphrase [OF A G S'] P assms no1 no2 no3 show ?thesis by simp
        next
          case (Inr pw)
          from message_signs [OF A G S' P [unfolded Inr]] assms no1 no2 no3
          have "h = signHash W d"
            by (auto split: option.splits if_splits)
          with A f show ?thesis by blast
        qed
      qed
    qed
  qed
qed

text \<open>
  Claim C8. The hash that \<^verbatim>\<open>message\<close> signs: \<open>signHash d\<close> is Keccak-256 of the bytes of
  \<^verbatim>\<open>"\x19Ethereum Signed Message:\n"\<close>, followed by the decimal digits of the length of \<open>d\<close>,
  followed by \<open>d\<close> itself; and every hash that a run of \<^verbatim>\<open>message\<close> hands to a wallet for
  signing is this hash of the bytes decoded from \<^verbatim>\<open>--data\<close>.
\<close>

theorem signHash_keccak:
  "signHash W d =
     Keccak256 W (to_bytes ([CHR 0x19] @ ''Ethereum Signed Message:'' @ [CHR 0x0A])
                  @ to_bytes (decimal (length d)) @ d)
   \<and> (\<forall>c u a p h. SignHash u a p h \<in> set (fst (message W c)) \<longrightarrow>
         (\<exists>ea d'. msg_arguments W c = (ea, Inr (HexToAddress W (c_String c ''from''), d'))
            \<and> h = Keccak256 W (to_bytes ([CHR 0x19] @ ''Ethereum Signed Message:'' @ [CHR 0x0A])
                               @ to_bytes (decimal (length d')) @ d')))"
  using message_SignHash [of _ _ _ _ W] signHash_eq [of W] by metis

text \<open>The run of \<^verbatim>\<open>message\<close> on a keystore account signs such a hash.\<close>

theorem signHash_keccak_witness:
  "SignHash ks_url acct_a ''secret'' (replicate 32 0)
     \<in> set (fst (message demo_world (msg_flags ''0xaa'')))
   \<and> (\<exists>ea d'. msg_arguments demo_world (msg_flags ''0xaa'') =
                  (ea, Inr (HexToAddress demo_world (c_String (msg_flags ''0xaa'') ''from''), d'))
          \<and> replicate 32 0 =
              Keccak256 demo_world
                (to_bytes ([CHR 0x19] @ ''Ethereum Signed Message:'' @ [CHR 0x0A])
                 @ to_bytes (decimal (length d')) @ d'))"
proof -
  have run: "message demo_world (msg_flags ''0xaa'') =
     ([Stderr ''Ethereum account passphrase (not echoed): '', PasswordRead,
       SignHash ks_url acct_a ''secret'' (replicate 32 0),
       Stdout (Encode (sig65[64 := sig65 ! 64 + 27]) @ [CHR 0x0A])], Inr ())"
    by (simp add: run_defs demo_defs length_sig65)
  have h: "SignHash ks_url acct_a ''secret'' (replicate 32 0)
             \<in> set (fst (message demo_world (msg_flags ''0xaa'')))"
    by (simp add: run)
  from signHash_keccak [of demo_world "[]"] h show ?thesis by blast
qed

subsection \<open>The output of \<^verbatim>\<open>message\<close>\<close>

lemma Encode_update:
  assumes "n < length sig"
  shows "Encode (sig[n := v]) =
           ''0x'' @ concat (map hex_byte (take n sig)) @ hex_byte v
             @ concat (map hex_byte (drop (Suc n) sig))"
  using assms by (simp add: Encode_def upd_conv_take_nth_drop)

lemma hex_byte_27: "hex_byte 27 = ''1b''"
  by (simp add: hex_byte_def hex_digit_def)

lemma hex_byte_28: "hex_byte 28 = ''1c''"
  by (simp add: hex_byte_def hex_digit_def)

text \<open>
  Claim C9. A run of \<^verbatim>\<open>message\<close> returns \<^verbatim>\<open>nil\<close> exactly when the flags pass the checks and
  decode, the scan of the wallets of the world finds an account, the passphrase is obtained,
  and the wallet that the scan found signs the hash of the data for that account with that
  passphrase and returns a signature \<open>sig\<close> of more than 64 bytes. The run then prints this
  signature with 27 added to the byte at index 64, modulo \<open>2 ^ 8\<close>: the 64 bytes before it
  are printed as the wallet returned them, and a byte 0 or 1 at index 64 is printed as
  \<^verbatim>\<open>1b\<close> (27) or \<^verbatim>\<open>1c\<close> (28).
\<close>

theorem message_prints_signature:
  "message W c = (evs, Inr ()) \<longleftrightarrow>
     (\<exists>f d hevs ws sevs (wallet :: wallet) acct np pevs p sig.
        msg_arguments W c = ([], Inr (f, d))
      \<and> getWallets W (c_String c ''key-store'') = (hevs, Inr ws)
      \<and> scan ws f = (sevs, Inr (Some (wallet, acct, np)))
      \<and> get_passphrase W c np = (pevs, Inr p)
      \<and> SignHashWithPassphrase wallet acct p (signHash W d) = Some sig
      \<and> 64 < length sig
      \<and> evs = hevs @ sevs @ pevs @
               [SignHash (URL wallet) acct p (signHash W d),
                Stdout (Encode (sig[64 := sig ! 64 + 27]) @ [CHR 0x0A])]
      \<and> stdout evs =
          ''0x'' @ concat (map hex_byte (take 64 sig)) @ hex_byte (sig ! 64 + 27)
            @ concat (map hex_byte (drop 65 sig)) @ [CHR 0x0A]
      \<and> unat (sig ! 64 + 27) = (unat (sig ! 64) + 27) mod 2 ^ 8
      \<and> (sig ! 64 = 0 \<longrightarrow> hex_byte (sig ! 64 + 27) = ''1b'')
      \<and> (sig ! 64 = 1 \<longrightarrow> hex_byte (sig ! 64 + 27) = ''1c''))"
  (is "?run \<longleftrightarrow> ?signed")
proof
  assume run: ?run
  show ?signed
  proof (cases W c rule: message_cases)
    case (arguments e)
    with run show ?thesis by simp
  next
    case (scan_failed f d hevs ws sevs e)
    with run show ?thesis by simp
  next
    case (not_found f d hevs ws sevs)
    with run show ?thesis by simp
  next
    case (no_passphrase f d hevs ws sevs wallet acct np pevs e)
    with run show ?thesis by simp
  next
    case (signs f d hevs ws sevs wallet acct np pevs p)
    from signs(5) run obtain sig where
      s: "SignHashWithPassphrase wallet acct p (signHash W d) = Some sig"
      and len: "64 < length sig"
      by (auto split: option.splits if_splits)
    from signs(5) run s len have
      evs: "evs = hevs @ sevs @ pevs @ [SignHash (URL wallet) acct p (signHash W d),
                    Stdout (Encode (sig[64 := sig ! 64 + 27]) @ [CHR 0x0A])]"
      by simp
    have "stdout (hevs @ sevs @ pevs) = []"
      by (simp add: stdout_append stdout_getWallets [OF signs(2)] stdout_scan [OF signs(3)]
            stdout_get_passphrase [OF signs(4)])
    then have out: "stdout evs =
               ''0x'' @ concat (map hex_byte (take 64 sig)) @ hex_byte (sig ! 64 + 27)
                 @ concat (map hex_byte (drop 65 sig)) @ [CHR 0x0A]"
      unfolding evs using Encode_update [OF len, of "sig ! 64 + 27"]
      by (simp add: stdout_append) (simp add: stdout_def)
    have mod: "unat (sig ! 64 + 27) = (unat (sig ! 64) + 27) mod 2 ^ 8"
      by (simp add: unat_word_ariths)
    show ?thesis
    proof (intro exI conjI)
      show "msg_arguments W c = ([], Inr (f, d))" by (rule signs(1))
      show "getWallets W (c_String c ''key-store'') = (hevs, Inr ws)" by (rule signs(2))
      show "scan ws f = (sevs, Inr (Some (wallet, acct, np)))" by (rule signs(3))
      show "get_passphrase W c np = (pevs, Inr p)" by (rule signs(4))
      show "SignHashWithPassphrase wallet acct p (signHash W d) = Some sig" by (rule s)
      show "64 < length sig" by (rule len)
      show "evs = hevs @ sevs @ pevs @ [SignHash (URL wallet) acct p (signHash W d),
                    Stdout (Encode (sig[64 := sig ! 64 + 27]) @ [CHR 0x0A])]"
        by (rule evs)
      show "stdout evs =
               ''0x'' @ concat (map hex_byte (take 64 sig)) @ hex_byte (sig ! 64 + 27)
                 @ concat (map hex_byte (drop 65 sig)) @ [CHR 0x0A]"
        by (rule out)
      show "unat (sig ! 64 + 27) = (unat (sig ! 64) + 27) mod 2 ^ 8" by (rule mod)
      show "sig ! 64 = 0 \<longrightarrow> hex_byte (sig ! 64 + 27) = ''1b''"
        by (simp add: hex_byte_27)
      show "sig ! 64 = 1 \<longrightarrow> hex_byte (sig ! 64 + 27) = ''1c''"
        by (simp add: hex_byte_28)
    qed
  qed
next
  assume ?signed
  then obtain f d hevs ws sevs and wallet :: wallet and acct np pevs p sig where
    A: "msg_arguments W c = ([], Inr (f, d))"
    and G: "getWallets W (c_String c ''key-store'') = (hevs, Inr ws)"
    and S: "scan ws f = (sevs, Inr (Some (wallet, acct, np)))"
    and P: "get_passphrase W c np = (pevs, Inr p)"
    and s: "SignHashWithPassphrase wallet acct p (signHash W d) = Some sig"
    and len: "64 < length sig"
    and evs: "evs = hevs @ sevs @ pevs @ [SignHash (URL wallet) acct p (signHash W d),
                    Stdout (Encode (sig[64 := sig ! 64 + 27]) @ [CHR 0x0A])]"
    by blast
  from message_signs [OF A G S P] s len evs show ?run by simp
qed

text \<open>The run for the keystore account of the example world: the last byte 1 becomes 28.\<close>

theorem message_prints_signature_witness:
  "message demo_world (msg_flags ''0xaa'') =
     ([Stderr ''Ethereum account passphrase (not echoed): '', PasswordRead,
       SignHash ks_url acct_a ''secret'' (replicate 32 0),
       Stdout (Encode (sig65[64 := 28]) @ [CHR 0x0A])], Inr ())
   \<and> (\<exists>f d hevs ws sevs (wallet :: wallet) acct np pevs p sig.
        msg_arguments demo_world (msg_flags ''0xaa'') = ([], Inr (f, d))
      \<and> getWallets demo_world (c_String (msg_flags ''0xaa'') ''key-store'') = (hevs, Inr ws)
      \<and> scan ws f = (sevs, Inr (Some (wallet, acct, np)))
      \<and> get_passphrase demo_world (msg_flags ''0xaa'') np = (pevs, Inr p)
      \<and> SignHashWithPassphrase wallet acct p (signHash demo_world d) = Some sig
      \<and> 64 < length sig
      \<and> [Stderr ''Ethereum account passphrase (not echoed): '', PasswordRead,
          SignHash ks_url acct_a ''secret'' (replicate 32 0),
          Stdout (Encode (sig65[64 := 28]) @ [CHR 0x0A])]
          = hevs @ sevs @ pevs @
               [SignHash (URL wallet) acct p (signHash demo_world d),
                Stdout (Encode (sig[64 := sig ! 64 + 27]) @ [CHR 0x0A])]
      \<and> stdout [Stderr ''Ethereum account passphrase (not echoed): '', PasswordRead,
            SignHash ks_url acct_a ''secret'' (replicate 32 0),
            Stdout (Encode (sig65[64 := 28]) @ [CHR 0x0A])] =
          ''0x'' @ concat (map hex_byte (take 64 sig)) @ hex_byte (sig ! 64 + 27)
            @ concat (map hex_byte (drop 65 sig)) @ [CHR 0x0A]
      \<and> unat (sig ! 64 + 27) = (unat (sig ! 64) + 27) mod 2 ^ 8
      \<and> (sig ! 64 = 0 \<longrightarrow> hex_byte (sig ! 64 + 27) = ''1b'')
      \<and> (sig ! 64 = 1 \<longrightarrow> hex_byte (sig ! 64 + 27) = ''1c''))"
proof -
  have last: "sig65 ! 64 = 1"
    by (simp add: sig65_def nth_append)
  have run: "message demo_world (msg_flags ''0xaa'') =
     ([Stderr ''Ethereum account passphrase (not echoed): '', PasswordRead,
       SignHash ks_url acct_a ''secret'' (replicate 32 0),
       Stdout (Encode (sig65[64 := 28]) @ [CHR 0x0A])], Inr ())"
    by (simp add: run_defs demo_defs length_sig65 last)
  from run message_prints_signature [THEN iffD1, OF run] show ?thesis
    by (rule conjI)
qed

subsection \<open>The prefix of \<^verbatim>\<open>--data\<close> in \<^verbatim>\<open>message\<close>\<close>

lemma c_String_with_flag:
  "c_String (with_flag c name v) n = (if n = name then v else c_String c n)"
  by (simp add: with_flag_def)

lemma get_passphrase_with_data:
  "get_passphrase W (with_flag c ''data'' v) np = get_passphrase W c np"
  by (simp add: get_passphrase_def c_String_with_flag)

lemma msg_arguments_prefixed:
  assumes "s \<noteq> ''''" and "\<not> HasPrefix s ''0x''"
  shows "msg_arguments W (with_flag c ''data'' s) = msg_arguments W (with_flag c ''data'' (''0x'' @ s))"
proof -
  have "HasPrefix (''0x'' @ s) ''0x''"
    by (simp add: HasPrefix_def)
  with assms show ?thesis
    by (simp add: msg_arguments_def msg_requireds_def c_String_with_flag Let_def)
qed

text \<open>
  Claim C10, as amended. For every string \<open>s\<close> that is not empty and does not start with
  \<^verbatim>\<open>0x\<close>, the run of \<^verbatim>\<open>message\<close> with \<^verbatim>\<open>--data s\<close> is the run with \<^verbatim>\<open>--data 0xs\<close>: the same
  effects in the same order and the same result.
\<close>

theorem message_data_prefix:
  assumes "s \<noteq> ''''" and "\<not> HasPrefix s ''0x''"
  shows "message W (with_flag c ''data'' s) = message W (with_flag c ''data'' (''0x'' @ s))"
  unfolding message_def msg_arguments_prefixed [OF assms]
  by (simp add: get_passphrase_with_data c_String_with_flag)

text \<open>The data \<^verbatim>\<open>01ff\<close> on the keystore account of the example world.\<close>

theorem message_data_prefix_witness:
  "''01ff'' \<noteq> '''' \<and> \<not> HasPrefix ''01ff'' ''0x''
   \<and> message demo_world (with_flag (msg_flags ''0xaa'') ''data'' ''01ff'')
       = message demo_world (with_flag (msg_flags ''0xaa'') ''data'' (''0x'' @ ''01ff''))"
proof -
  have h1: "''01ff'' \<noteq> ''''" by simp
  have h2: "\<not> HasPrefix ''01ff'' ''0x''" by (simp add: HasPrefix_def)
  from message_data_prefix [OF h1 h2, of demo_world "msg_flags ''0xaa''"] h1 h2
  show ?thesis by simp
qed

text \<open>
  The claim as it is written fails on the empty string, which does not start with \<^verbatim>\<open>0x\<close>:
  with \<^verbatim>\<open>--data ""\<close> the check of the required flags ends the run, and with \<^verbatim>\<open>--data 0x\<close>
  the empty message is signed.
\<close>

theorem message_data_prefix_counterexample:
  "\<not> HasPrefix '''' ''0x''
   \<and> message demo_world (with_flag (msg_flags ''0xaa'') ''data'' '''')
       = ([], Inl (ExitError ''ethsign: missing required parameter --data'' 1))
   \<and> message demo_world (with_flag (msg_flags ''0xaa'') ''data'' (''0x'' @ ''''))
       = ([Stderr ''Ethereum account passphrase (not echoed): '', PasswordRead,
           SignHash ks_url acct_a ''secret'' (replicate 32 0),
           Stdout (Encode (sig65[64 := 28]) @ [CHR 0x0A])], Inr ())"
proof -
  have last: "sig65 ! 64 = 1"
    by (simp add: sig65_def nth_append)
  show ?thesis
    by (simp add: run_defs demo_defs length_sig65 last)
qed

end
